theory Spec2Isabelle
  imports Complex_Main "HOL-Library.AList"
begin

section \<open>Values of the notebooks\<close>

text \<open>
  The two notebooks (\<^verbatim>\<open>imbalanced_learning.ipynb\<close>, \<^verbatim>\<open>ensemble_learning.ipynb\<close>) are
  straight-line Python cells around calls into scikit-learn, imbalanced-learn and numpy.
  Label vectors are one-dimensional integer arrays, modelled as \<open>int list\<close>. A float64 is
  modelled by the number it stands for: a finite value by a rational (rounding is not
  modelled), and the three special values by constructors of their own.
\<close>

datatype py_exception =
  NameError string | ValueError | IndexError | LibraryError string

datatype pyfloat = Finite rat | PosInf | NegInf | NaN

type_synonym labels = "int list"
type_synonym matrix = "pyfloat list list"

section \<open>Array expressions written in the cells\<close>

subsection \<open>Boolean masks and masked assignment\<close>

text \<open>\<^verbatim>\<open>a == c\<close> on an integer array: the elementwise comparison, a boolean array.\<close>

definition eq_scalar :: "labels \<Rightarrow> int \<Rightarrow> bool list" where
  "eq_scalar a c = map (\<lambda>x. x = c) a"

text \<open>\<^verbatim>\<open>~mask\<close>: elementwise negation.\<close>

definition invert :: "bool list \<Rightarrow> bool list" where
  "invert msk = map Not msk"

text \<open>
  \<^verbatim>\<open>a[mask] = v\<close>: every position where the mask holds receives \<open>v\<close>. numpy takes a
  boolean index of length 0 on any array and selects nothing with it; a boolean index of
  any other length than the array raises IndexError.
\<close>

definition setitem_mask :: "labels \<Rightarrow> bool list \<Rightarrow> int \<Rightarrow> py_exception + labels" where
  "setitem_mask a msk v =
     (if msk = [] then Inr a
      else if length msk \<noteq> length a then Inl IndexError
      else Inr (map (\<lambda>(x, b). if b then v else x) (zip a msk)))"

text \<open>
  \<^verbatim>\<open>X[mask]\<close>: the rows where the mask holds, in order. A mask of length 0 selects no
  row of any array; a mask of any other length than the array raises IndexError.
\<close>

definition getitem_mask :: "'a list \<Rightarrow> bool list \<Rightarrow> py_exception + 'a list" where
  "getitem_mask X msk =
     (if msk = [] then Inr []
      else if length msk \<noteq> length X then Inl IndexError
      else Inr (map fst (filter snd (zip X msk))))"

text \<open>
  The two statements of both anomaly-detection cells, in the order written:
  \<^verbatim>\<open>y_pred[y_pred == 1] = 0\<close> and then \<^verbatim>\<open>y_pred[y_pred == -1] = 1\<close>. Each mask is computed
  from the array as it is when its statement runs.
\<close>

definition remap_first :: "labels \<Rightarrow> py_exception + labels" where
  "remap_first y_pred = setitem_mask y_pred (eq_scalar y_pred 1) 0"

definition remap_second :: "labels \<Rightarrow> py_exception + labels" where
  "remap_second y_pred = setitem_mask y_pred (eq_scalar y_pred (- 1)) 1"

definition remap_predictions :: "labels \<Rightarrow> py_exception + labels" where
  "remap_predictions y_pred =
     (case remap_first y_pred of
        Inl e \<Rightarrow> Inl e
      | Inr y1 \<Rightarrow> remap_second y1)"

subsection \<open>Binarising a regression target\<close>

text \<open>
  \<^verbatim>\<open>y > 150\<close> compares each float with the integer 150: NaN compares false with
  everything, the infinities compare by sign.
\<close>

fun float_gt :: "pyfloat \<Rightarrow> rat \<Rightarrow> bool" where
  "float_gt (Finite r) c = (c < r)"
| "float_gt PosInf c = True"
| "float_gt NegInf c = False"
| "float_gt NaN c = False"

definition gt_scalar :: "pyfloat list \<Rightarrow> rat \<Rightarrow> bool list" where
  "gt_scalar y c = map (\<lambda>x. float_gt x c) y"

text \<open>\<^verbatim>\<open>.astype(int)\<close> on a boolean array: True is 1, False is 0.\<close>

definition astype_int :: "bool list \<Rightarrow> labels" where
  "astype_int bs = map (\<lambda>b. if b then 1 else 0) bs"

text \<open>\<^verbatim>\<open>y_binary = (y > 150).astype(int)\<close>\<close>

definition y_binary_of :: "pyfloat list \<Rightarrow> labels" where
  "y_binary_of y = astype_int (gt_scalar y 150)"

subsection \<open>Class weights\<close>

text \<open>\<^verbatim>\<open>np.unique(a)\<close>: the distinct values, ascending.\<close>

definition np_unique :: "labels \<Rightarrow> labels" where
  "np_unique a = sort (remdups a)"

text \<open>
  \<^verbatim>\<open>np.bincount(a)\<close>: numpy refuses a negative entry with ValueError; otherwise the
  result has one entry for each value from 0 up to the largest entry of \<open>a\<close>, the number
  of times that value occurs. On an empty integer array it is empty.
\<close>

definition np_bincount :: "labels \<Rightarrow> py_exception + int list" where
  "np_bincount a =
     (if \<exists>x \<in> set a. x < 0 then Inl ValueError
      else if a = [] then Inr []
      else Inr (map (\<lambda>v. int (count_list a v)) [0 .. Max (set a)]))"

text \<open>
  A Python dict keeps its keys in insertion order, and storing under a key that is
  already there replaces the value in place: an association list under \<open>AList.update\<close>.
  \<^verbatim>\<open>dict(pairs)\<close> stores the pairs from left to right.
\<close>

definition dict_of :: "('k \<times> 'v) list \<Rightarrow> ('k \<times> 'v) list" where
  "dict_of ps = fold (\<lambda>(k, v) d. AList.update k v d) ps []"

text \<open>
  \<^verbatim>\<open>class_weight = dict(zip(np.unique(y_train), np.bincount(y_train)))\<close>: Python evaluates
  the arguments from left to right, and \<open>zip\<close> stops at the shorter of the two.
\<close>

definition class_weight_of :: "labels \<Rightarrow> py_exception + (int \<times> int) list" where
  "class_weight_of y_train =
     (let u = np_unique y_train in
      case np_bincount y_train of
        Inl e \<Rightarrow> Inl e
      | Inr counts \<Rightarrow> Inr (dict_of (zip u counts)))"

section \<open>The external libraries\<close>

text \<open>
  Every estimator, resampler, data loader and splitter is a call into scikit-learn or
  imbalanced-learn; none of that code belongs to the notebooks. A call is modelled by its
  outcome: the warning lines it writes to the error stream, and either the exception it
  raises or the value it returns. The field of a library record is the function that
  gives this outcome for the arguments of the call. Its type records the shape of result
  that the library documents (a resampler returns a feature matrix and a label vector, a
  classifier predicts a label vector); nothing more is known of it. A call returns
  values: it has no access to the variables of the notebook.
\<close>

type_synonym 'a outcome = "string list \<times> (py_exception + 'a)"

text \<open>
  An estimator object as the cell constructs it: the class name, the positional
  arguments and the keyword arguments, as written. Constructing one only stores its
  parameters.
\<close>

datatype param =
    PInt int
  | PFloat pyfloat
  | PFloats "pyfloat list"
  | PCounts "(int \<times> int) list"
  | PCosts "(int \<times> pyfloat) list"
  | PEstimator spec
  | PEstimators "(string \<times> spec) list"
and spec = Spec string "param list" "(string \<times> param) list"

type_synonym kwargs = "(string \<times> param) list"

text \<open>What a dataset loader returns: \<^verbatim>\<open>.data\<close> and \<^verbatim>\<open>.target\<close>.\<close>

record 't bunch =
  data :: matrix
  target :: 't

text \<open>\<open>'o\<close> is whatever a fitted estimator holds.\<close>

record 'o library =
  import_module :: "string \<Rightarrow> string list \<Rightarrow> unit outcome"
  make_classification :: "kwargs \<Rightarrow> (matrix \<times> labels) outcome"
  load_digits :: "labels bunch outcome"
  load_wine :: "labels bunch outcome"
  load_diabetes :: "pyfloat list bunch outcome"
  train_test_split ::
    "matrix \<Rightarrow> labels \<Rightarrow> kwargs \<Rightarrow> (matrix \<times> matrix \<times> labels \<times> labels) outcome"
  fit_resample :: "spec \<Rightarrow> matrix \<Rightarrow> labels \<Rightarrow> (matrix \<times> labels) outcome"
  fit :: "spec \<Rightarrow> matrix \<Rightarrow> labels \<Rightarrow> 'o outcome"
  fit_unsupervised :: "spec \<Rightarrow> matrix \<Rightarrow> 'o outcome"
  predict :: "spec \<Rightarrow> 'o \<Rightarrow> matrix \<Rightarrow> labels outcome"

text \<open>
  \<^verbatim>\<open>accuracy_score(y_true, y_pred)\<close> on two label vectors: scikit-learn raises ValueError
  when their lengths differ, and otherwise returns the mean of the elementwise
  comparison, the share of positions where the two agree. The share is kept as the exact
  quotient; the float64 that Python prints is this quotient rounded, and rounding keeps a
  value between 0 and 1 there. On two empty vectors the mean is NaN, and numpy writes two
  RuntimeWarnings to the error stream before it is returned (given here by their
  messages).
\<close>

definition agreement :: "labels \<Rightarrow> labels \<Rightarrow> rat" where
  "agreement y_true y_pred =
     Fract (int (length (filter (\<lambda>(a, b). a = b) (zip y_true y_pred)))) (int (length y_true))"

definition accuracy_score :: "labels \<Rightarrow> labels \<Rightarrow> pyfloat outcome" where
  "accuracy_score y_true y_pred =
     (if length y_true \<noteq> length y_pred then ([], Inl ValueError)
      else if y_true = []
      then ([''RuntimeWarning: Mean of empty slice.'',
             ''RuntimeWarning: invalid value encountered in double_scalars''], Inr NaN)
      else ([], Inr (Finite (agreement y_true y_pred))))"

text \<open>
  What scikit-learn documents of every \<^verbatim>\<open>predict\<close>: the result has one label for each
  row of the matrix, and a matrix with no rows is refused with an exception. The
  claims about what is printed are proved of the libraries that keep to this.
\<close>

definition predict_contract :: "'o library \<Rightarrow> bool" where
  "predict_contract lib =
     (\<forall>sp m Xv yp. snd (predict lib sp m Xv) = Inr yp \<longrightarrow> length yp = length Xv \<and> Xv \<noteq> [])"

section \<open>The notebook kernel\<close>

text \<open>
  What a cell does that can be seen from outside, in the order it happens: the calls it
  makes into the libraries, the warning lines those calls write, and the lines the cell
  prints (\<^verbatim>\<open>print(label, value)\<close>).
\<close>

datatype 'o call =
    Import string "string list"
  | MakeClassification kwargs
  | LoadDigits
  | LoadWine
  | LoadDiabetes
  | TrainTestSplit matrix labels kwargs
  | FitResample spec matrix labels
  | Fit spec matrix labels
  | FitUnsupervised spec matrix
  | Predict spec 'o matrix
  | AccuracyScore labels labels
  | NpBincount labels
  | GetitemMask matrix "bool list"
  | SetitemMask labels "bool list" int

datatype 'o event = Called "'o call" | Warned string | Printed string pyfloat

text \<open>\<^verbatim>\<open>y\<close> holds class labels in most cells and the raw regression target in one.\<close>

datatype target_array = Labels labels | Values "pyfloat list"

type_synonym 'o estimator = "spec \<times> 'o option"

text \<open>
  The kernel's state: the global variables of the notebooks, each unset until a cell
  assigns it, and the trace of events so far. An estimator variable holds the
  parameters and, once \<^verbatim>\<open>fit\<close> has returned, the fitted state.
\<close>

record 'o kernel =
  trace :: "'o event list"
  X :: "matrix option"
  y :: "target_array option"
  X_train :: "matrix option"
  X_test :: "matrix option"
  y_train :: "labels option"
  y_test :: "labels option"
  cluster_centroids :: "spec option"
  tomek_links :: "spec option"
  smote :: "spec option"
  smote_enn :: "spec option"
  adasyn :: "spec option"
  X_train_resampled :: "matrix option"
  y_train_resampled :: "labels option"
  X_train_resampled_smote :: "matrix option"
  y_train_resampled_smote :: "labels option"
  X_train_resampled_adasyn :: "matrix option"
  y_train_resampled_adasyn :: "labels option"
  rf_model :: "'o estimator option"
  rf_model_smote :: "'o estimator option"
  rf_model_adasyn :: "'o estimator option"
  dt_model :: "'o estimator option"
  svm_model :: "'o estimator option"
  if_model :: "'o estimator option"
  y_pred :: "labels option"
  y_pred_smote :: "labels option"
  y_pred_adasyn :: "labels option"
  accuracy :: "pyfloat option"
  accuracy_smote :: "pyfloat option"
  accuracy_adasyn :: "pyfloat option"
  class_weight :: "(int \<times> int) list option"
  class_costs :: "(int \<times> pyfloat) list option"
  anomaly_mask :: "bool list option"
  digits :: "labels bunch option"
  wine :: "labels bunch option"
  diabetes :: "pyfloat list bunch option"
  y_binary :: "labels option"
  base_model :: "spec option"
  bagging_model :: "'o estimator option"
  adaboost_model :: "'o estimator option"
  base_models :: "(string \<times> spec) list option"
  meta_model :: "spec option"
  stacking_model :: "'o estimator option"

text \<open>
  A piece of cell code runs on the kernel state and either finishes with a value or
  raises; the state it leaves is kept in both cases. The cells contain no
  \<^verbatim>\<open>try\<close> statement, so the only way two pieces are combined is \<open>bnd\<close>: the second runs
  if and only if the first has finished without raising.
\<close>

type_synonym ('o, 'a) code = "'o kernel \<Rightarrow> (py_exception + 'a) \<times> 'o kernel"

definition ret :: "'a \<Rightarrow> ('o, 'a) code" where
  "ret a = (\<lambda>s. (Inr a, s))"

definition bnd :: "('o, 'a) code \<Rightarrow> ('a \<Rightarrow> ('o, 'b) code) \<Rightarrow> ('o, 'b) code" where
  "bnd m f = (\<lambda>s. case m s of (Inl e, s') \<Rightarrow> (Inl e, s') | (Inr a, s') \<Rightarrow> f a s')"

text \<open>Reading a global variable; an unset one raises NameError.\<close>

definition rd :: "('o kernel \<Rightarrow> 'a option) \<Rightarrow> string \<Rightarrow> ('o, 'a) code" where
  "rd var name = (\<lambda>s. case var s of None \<Rightarrow> (Inl (NameError name), s) | Some v \<Rightarrow> (Inr v, s))"

text \<open>Assigning global variables.\<close>

definition store :: "('o kernel \<Rightarrow> 'o kernel) \<Rightarrow> ('o, unit) code" where
  "store upd = (\<lambda>s. (Inr (), upd s))"

text \<open>
  A library call: the call and then its warnings are appended to the trace, and its
  exception or value is the result.
\<close>

definition ext :: "'o call \<Rightarrow> 'a outcome \<Rightarrow> ('o, 'a) code" where
  "ext k out = (\<lambda>s. (snd out, s\<lparr>trace := trace s @ Called k # map Warned (fst out)\<rparr>))"

text \<open>\<^verbatim>\<open>print(label, value)\<close>\<close>

definition print_line :: "string \<Rightarrow> pyfloat \<Rightarrow> ('o, unit) code" where
  "print_line label v = (\<lambda>s. (Inr (), s\<lparr>trace := trace s @ [Printed label v]\<rparr>))"

text \<open>Statements one after the other.\<close>

fun seq :: "('o, unit) code list \<Rightarrow> ('o, unit) code" where
  "seq [] = ret ()"
| "seq (c # cs) = bnd c (\<lambda>_. seq cs)"

text \<open>The calls the cells make, each recorded under its own name and arguments.\<close>

definition call_import :: "'o library \<Rightarrow> string \<times> string list \<Rightarrow> ('o, unit) code" where
  "call_import lib = (\<lambda>(m, names). ext (Import m names) (import_module lib m names))"

definition call_make_classification :: "'o library \<Rightarrow> kwargs \<Rightarrow> ('o, matrix \<times> labels) code" where
  "call_make_classification lib kw = ext (MakeClassification kw) (make_classification lib kw)"

definition call_load_digits :: "'o library \<Rightarrow> ('o, labels bunch) code" where
  "call_load_digits lib = ext LoadDigits (load_digits lib)"

definition call_load_wine :: "'o library \<Rightarrow> ('o, labels bunch) code" where
  "call_load_wine lib = ext LoadWine (load_wine lib)"

definition call_load_diabetes :: "'o library \<Rightarrow> ('o, pyfloat list bunch) code" where
  "call_load_diabetes lib = ext LoadDiabetes (load_diabetes lib)"

definition call_train_test_split ::
  "'o library \<Rightarrow> matrix \<Rightarrow> labels \<Rightarrow> kwargs \<Rightarrow> ('o, matrix \<times> matrix \<times> labels \<times> labels) code" where
  "call_train_test_split lib Xv yv kw = ext (TrainTestSplit Xv yv kw) (train_test_split lib Xv yv kw)"

definition call_fit_resample ::
  "'o library \<Rightarrow> spec \<Rightarrow> matrix \<Rightarrow> labels \<Rightarrow> ('o, matrix \<times> labels) code" where
  "call_fit_resample lib sp Xv yv = ext (FitResample sp Xv yv) (fit_resample lib sp Xv yv)"

definition call_fit :: "'o library \<Rightarrow> spec \<Rightarrow> matrix \<Rightarrow> labels \<Rightarrow> ('o, 'o) code" where
  "call_fit lib sp Xv yv = ext (Fit sp Xv yv) (fit lib sp Xv yv)"

definition call_fit_unsupervised :: "'o library \<Rightarrow> spec \<Rightarrow> matrix \<Rightarrow> ('o, 'o) code" where
  "call_fit_unsupervised lib sp Xv = ext (FitUnsupervised sp Xv) (fit_unsupervised lib sp Xv)"

definition call_predict :: "'o library \<Rightarrow> spec \<Rightarrow> 'o \<Rightarrow> matrix \<Rightarrow> ('o, labels) code" where
  "call_predict lib sp m Xv = ext (Predict sp m Xv) (predict lib sp m Xv)"

definition call_accuracy_score :: "labels \<Rightarrow> labels \<Rightarrow> ('o, pyfloat) code" where
  "call_accuracy_score yt yp = ext (AccuracyScore yt yp) (accuracy_score yt yp)"

definition call_np_bincount :: "labels \<Rightarrow> ('o, int list) code" where
  "call_np_bincount a = ext (NpBincount a) ([], np_bincount a)"

definition call_getitem_mask :: "matrix \<Rightarrow> bool list \<Rightarrow> ('o, matrix) code" where
  "call_getitem_mask Xv msk = ext (GetitemMask Xv msk) ([], getitem_mask Xv msk)"

definition call_setitem_mask :: "labels \<Rightarrow> bool list \<Rightarrow> int \<Rightarrow> ('o, labels) code" where
  "call_setitem_mask a msk v = ext (SetitemMask a msk v) ([], setitem_mask a msk v)"

text \<open>The exception a call raises, if it raises one.\<close>

definition exn_of :: "'a outcome \<Rightarrow> py_exception option" where
  "exn_of out = (case snd out of Inl e \<Rightarrow> Some e | Inr _ \<Rightarrow> None)"

fun raised :: "'o library \<Rightarrow> 'o call \<Rightarrow> py_exception option" where
  "raised lib (Import m names) = exn_of (import_module lib m names)"
| "raised lib (MakeClassification kw) = exn_of (make_classification lib kw)"
| "raised lib LoadDigits = exn_of (load_digits lib)"
| "raised lib LoadWine = exn_of (load_wine lib)"
| "raised lib LoadDiabetes = exn_of (load_diabetes lib)"
| "raised lib (TrainTestSplit Xv yv kw) = exn_of (train_test_split lib Xv yv kw)"
| "raised lib (FitResample sp Xv yv) = exn_of (fit_resample lib sp Xv yv)"
| "raised lib (Fit sp Xv yv) = exn_of (fit lib sp Xv yv)"
| "raised lib (FitUnsupervised sp Xv) = exn_of (fit_unsupervised lib sp Xv)"
| "raised lib (Predict sp m Xv) = exn_of (predict lib sp m Xv)"
| "raised lib (AccuracyScore yt yp) = exn_of (accuracy_score yt yp)"
| "raised lib (NpBincount a) = exn_of ([], np_bincount a)"
| "raised lib (GetitemMask Xv msk) = exn_of ([], getitem_mask Xv msk)"
| "raised lib (SetitemMask a msk v) = exn_of ([], setitem_mask a msk v)"

section \<open>The cells of imbalanced_learning.ipynb\<close>

text \<open>
  Each code cell is translated statement by statement. A global variable that an earlier
  cell assigned is read from the kernel state; a value the cell itself has just computed
  is used as it is. An in-place change of an array (\<^verbatim>\<open>y_pred[...] = v\<close>) is the assignment
  of the changed array to the variable that holds it.

  The first cell is the import block: one call for each \<^verbatim>\<open>import\<close> line, with the
  module and the names taken from it (none for \<^verbatim>\<open>import numpy as np\<close>).
\<close>

definition imbalanced_imports :: "'o library \<Rightarrow> ('o, unit) code" where
  "imbalanced_imports lib =
     seq (map (call_import lib)
       [(''numpy'', []),
        (''pandas'', []),
        (''sklearn.datasets'', [''make_classification'']),
        (''sklearn.model_selection'', [''train_test_split'']),
        (''sklearn.tree'', [''DecisionTreeClassifier'']),
        (''sklearn.ensemble'', [''RandomForestClassifier'']),
        (''sklearn.metrics'', [''accuracy_score'']),
        (''imblearn.under_sampling'', [''ClusterCentroids'']),
        (''imblearn.under_sampling'', [''TomekLinks'']),
        (''imblearn.over_sampling'', [''SMOTE'', ''ADASYN'']),
        (''imblearn.combine'', [''SMOTEENN'']),
        (''sklearn.svm'', [''OneClassSVM'']),
        (''sklearn.ensemble'', [''IsolationForest''])])"

text \<open>
  \<^verbatim>\<open>X, y = make_classification(n_samples=1000, n_features=20, weights=[0.99, 0.01], random_state=42)\<close>
  \<^verbatim>\<open>X_train, X_test, y_train, y_test = train_test_split(X, y, test_size=0.2, random_state=42)\<close>
\<close>

definition generate_cell :: "'o library \<Rightarrow> ('o, unit) code" where
  "generate_cell lib =
   bnd (call_make_classification lib
          [(''n_samples'', PInt 1000), (''n_features'', PInt 20),
           (''weights'', PFloats [Finite (99 / 100), Finite (1 / 100)]),
           (''random_state'', PInt 42)]) (\<lambda>(Xv, yv).
   bnd (store (\<lambda>s. s\<lparr>X := Some Xv, y := Some (Labels yv)\<rparr>)) (\<lambda>_.
   bnd (call_train_test_split lib Xv yv [(''test_size'', PFloat (Finite (1 / 5))), (''random_state'', PInt 42)]) (\<lambda>(Xtr, Xte, ytr, yte).
   store (\<lambda>s. s\<lparr>X_train := Some Xtr, X_test := Some Xte,
                 y_train := Some ytr, y_test := Some yte\<rparr>))))"

text \<open>
  \<^verbatim>\<open>cluster_centroids = ClusterCentroids(random_state=42)\<close>
  \<^verbatim>\<open>X_train_resampled, y_train_resampled = cluster_centroids.fit_resample(X_train, y_train)\<close>
  \<^verbatim>\<open>rf_model = RandomForestClassifier(random_state=42)\<close>
  \<^verbatim>\<open>rf_model.fit(X_train_resampled, y_train_resampled)\<close>
  \<^verbatim>\<open>y_pred = rf_model.predict(X_test)\<close>
  \<^verbatim>\<open>accuracy = accuracy_score(y_test, y_pred)\<close>
  \<^verbatim>\<open>print("Accuracy after under-sampling:", accuracy)\<close>
\<close>

definition cluster_centroids_cell :: "'o library \<Rightarrow> ('o, unit) code" where
  "cluster_centroids_cell lib =
   (let sampler = Spec ''ClusterCentroids'' [] [(''random_state'', PInt 42)] in
   bnd (store (\<lambda>s. s\<lparr>cluster_centroids := Some sampler\<rparr>)) (\<lambda>_.
   bnd (rd X_train ''X_train'') (\<lambda>Xtr.
   bnd (rd y_train ''y_train'') (\<lambda>ytr.
   bnd (call_fit_resample lib sampler Xtr ytr) (\<lambda>(Xr, yr).
   bnd (store (\<lambda>s. s\<lparr>X_train_resampled := Some Xr, y_train_resampled := Some yr\<rparr>)) (\<lambda>_.
   (let rf = Spec ''RandomForestClassifier'' [] [(''random_state'', PInt 42)] in
   bnd (store (\<lambda>s. s\<lparr>rf_model := Some (rf, None)\<rparr>)) (\<lambda>_.
   bnd (call_fit lib rf Xr yr) (\<lambda>m.
   bnd (store (\<lambda>s. s\<lparr>rf_model := Some (rf, Some m)\<rparr>)) (\<lambda>_.
   bnd (rd X_test ''X_test'') (\<lambda>Xte.
   bnd (call_predict lib rf m Xte) (\<lambda>yp.
   bnd (store (\<lambda>s. s\<lparr>y_pred := Some yp\<rparr>)) (\<lambda>_.
   bnd (rd y_test ''y_test'') (\<lambda>yte.
   bnd (call_accuracy_score yte yp) (\<lambda>acc.
   bnd (store (\<lambda>s. s\<lparr>accuracy := Some acc\<rparr>)) (\<lambda>_.
   print_line ''Accuracy after under-sampling:'' acc))))))))))))))))"

text \<open>
  \<^verbatim>\<open>tomek_links = TomekLinks()\<close>
  \<^verbatim>\<open>X_train_resampled, y_train_resampled = tomek_links.fit_resample(X_train, y_train)\<close>
  \<^verbatim>\<open>rf_model = RandomForestClassifier(random_state=42)\<close>
  \<^verbatim>\<open>rf_model.fit(X_train_resampled, y_train_resampled)\<close>
  \<^verbatim>\<open>y_pred = rf_model.predict(X_test)\<close>
  \<^verbatim>\<open>accuracy = accuracy_score(y_test, y_pred)\<close>
  \<^verbatim>\<open>print("Accuracy after Tomek Links under-sampling:", accuracy)\<close>
\<close>

definition tomek_links_cell :: "'o library \<Rightarrow> ('o, unit) code" where
  "tomek_links_cell lib =
   (let sampler = Spec ''TomekLinks'' [] [] in
   bnd (store (\<lambda>s. s\<lparr>tomek_links := Some sampler\<rparr>)) (\<lambda>_.
   bnd (rd X_train ''X_train'') (\<lambda>Xtr.
   bnd (rd y_train ''y_train'') (\<lambda>ytr.
   bnd (call_fit_resample lib sampler Xtr ytr) (\<lambda>(Xr, yr).
   bnd (store (\<lambda>s. s\<lparr>X_train_resampled := Some Xr, y_train_resampled := Some yr\<rparr>)) (\<lambda>_.
   (let rf = Spec ''RandomForestClassifier'' [] [(''random_state'', PInt 42)] in
   bnd (store (\<lambda>s. s\<lparr>rf_model := Some (rf, None)\<rparr>)) (\<lambda>_.
   bnd (call_fit lib rf Xr yr) (\<lambda>m.
   bnd (store (\<lambda>s. s\<lparr>rf_model := Some (rf, Some m)\<rparr>)) (\<lambda>_.
   bnd (rd X_test ''X_test'') (\<lambda>Xte.
   bnd (call_predict lib rf m Xte) (\<lambda>yp.
   bnd (store (\<lambda>s. s\<lparr>y_pred := Some yp\<rparr>)) (\<lambda>_.
   bnd (rd y_test ''y_test'') (\<lambda>yte.
   bnd (call_accuracy_score yte yp) (\<lambda>acc.
   bnd (store (\<lambda>s. s\<lparr>accuracy := Some acc\<rparr>)) (\<lambda>_.
   print_line ''Accuracy after Tomek Links under-sampling:'' acc))))))))))))))))"

text \<open>
  \<^verbatim>\<open>smote = SMOTE(random_state=42)\<close>
  \<^verbatim>\<open>X_train_resampled, y_train_resampled = smote.fit_resample(X_train, y_train)\<close>
  \<^verbatim>\<open>rf_model = RandomForestClassifier(random_state=42)\<close>
  \<^verbatim>\<open>rf_model.fit(X_train_resampled, y_train_resampled)\<close>
  \<^verbatim>\<open>y_pred = rf_model.predict(X_test)\<close>
  \<^verbatim>\<open>accuracy = accuracy_score(y_test, y_pred)\<close>
  \<^verbatim>\<open>print("Accuracy after over-sampling:", accuracy)\<close>
\<close>

definition smote_cell :: "'o library \<Rightarrow> ('o, unit) code" where
  "smote_cell lib =
   (let sampler = Spec ''SMOTE'' [] [(''random_state'', PInt 42)] in
   bnd (store (\<lambda>s. s\<lparr>smote := Some sampler\<rparr>)) (\<lambda>_.
   bnd (rd X_train ''X_train'') (\<lambda>Xtr.
   bnd (rd y_train ''y_train'') (\<lambda>ytr.
   bnd (call_fit_resample lib sampler Xtr ytr) (\<lambda>(Xr, yr).
   bnd (store (\<lambda>s. s\<lparr>X_train_resampled := Some Xr, y_train_resampled := Some yr\<rparr>)) (\<lambda>_.
   (let rf = Spec ''RandomForestClassifier'' [] [(''random_state'', PInt 42)] in
   bnd (store (\<lambda>s. s\<lparr>rf_model := Some (rf, None)\<rparr>)) (\<lambda>_.
   bnd (call_fit lib rf Xr yr) (\<lambda>m.
   bnd (store (\<lambda>s. s\<lparr>rf_model := Some (rf, Some m)\<rparr>)) (\<lambda>_.
   bnd (rd X_test ''X_test'') (\<lambda>Xte.
   bnd (call_predict lib rf m Xte) (\<lambda>yp.
   bnd (store (\<lambda>s. s\<lparr>y_pred := Some yp\<rparr>)) (\<lambda>_.
   bnd (rd y_test ''y_test'') (\<lambda>yte.
   bnd (call_accuracy_score yte yp) (\<lambda>acc.
   bnd (store (\<lambda>s. s\<lparr>accuracy := Some acc\<rparr>)) (\<lambda>_.
   print_line ''Accuracy after over-sampling:'' acc))))))))))))))))"

text \<open>
  \<^verbatim>\<open>smote_enn = SMOTEENN(random_state=42)\<close>
  \<^verbatim>\<open>X_train_resampled, y_train_resampled = smote_enn.fit_resample(X_train, y_train)\<close>
  \<^verbatim>\<open>rf_model = RandomForestClassifier(random_state=42)\<close>
  \<^verbatim>\<open>rf_model.fit(X_train_resampled, y_train_resampled)\<close>
  \<^verbatim>\<open>y_pred = rf_model.predict(X_test)\<close>
  \<^verbatim>\<open>accuracy = accuracy_score(y_test, y_pred)\<close>
  \<^verbatim>\<open>print("Accuracy after combined resampling:", accuracy)\<close>
\<close>

definition smote_enn_cell :: "'o library \<Rightarrow> ('o, unit) code" where
  "smote_enn_cell lib =
   (let sampler = Spec ''SMOTEENN'' [] [(''random_state'', PInt 42)] in
   bnd (store (\<lambda>s. s\<lparr>smote_enn := Some sampler\<rparr>)) (\<lambda>_.
   bnd (rd X_train ''X_train'') (\<lambda>Xtr.
   bnd (rd y_train ''y_train'') (\<lambda>ytr.
   bnd (call_fit_resample lib sampler Xtr ytr) (\<lambda>(Xr, yr).
   bnd (store (\<lambda>s. s\<lparr>X_train_resampled := Some Xr, y_train_resampled := Some yr\<rparr>)) (\<lambda>_.
   (let rf = Spec ''RandomForestClassifier'' [] [(''random_state'', PInt 42)] in
   bnd (store (\<lambda>s. s\<lparr>rf_model := Some (rf, None)\<rparr>)) (\<lambda>_.
   bnd (call_fit lib rf Xr yr) (\<lambda>m.
   bnd (store (\<lambda>s. s\<lparr>rf_model := Some (rf, Some m)\<rparr>)) (\<lambda>_.
   bnd (rd X_test ''X_test'') (\<lambda>Xte.
   bnd (call_predict lib rf m Xte) (\<lambda>yp.
   bnd (store (\<lambda>s. s\<lparr>y_pred := Some yp\<rparr>)) (\<lambda>_.
   bnd (rd y_test ''y_test'') (\<lambda>yte.
   bnd (call_accuracy_score yte yp) (\<lambda>acc.
   bnd (store (\<lambda>s. s\<lparr>accuracy := Some acc\<rparr>)) (\<lambda>_.
   print_line ''Accuracy after combined resampling:'' acc))))))))))))))))"

text \<open>
  \<^verbatim>\<open>smote = SMOTE(random_state=42)\<close>
  \<^verbatim>\<open>adasyn = ADASYN(random_state=42)\<close>
  \<^verbatim>\<open>X_train_resampled_smote, y_train_resampled_smote = smote.fit_resample(X_train, y_train)\<close>
  \<^verbatim>\<open>X_train_resampled_adasyn, y_train_resampled_adasyn = adasyn.fit_resample(X_train, y_train)\<close>
  \<^verbatim>\<open>rf_model_smote = RandomForestClassifier(random_state=42)\<close>
  \<^verbatim>\<open>rf_model_smote.fit(X_train_resampled_smote, y_train_resampled_smote)\<close>
  \<^verbatim>\<open>rf_model_adasyn = RandomForestClassifier(random_state=42)\<close>
  \<^verbatim>\<open>rf_model_adasyn.fit(X_train_resampled_adasyn, y_train_resampled_adasyn)\<close>
  \<^verbatim>\<open>y_pred_smote = rf_model_smote.predict(X_test)\<close>
  \<^verbatim>\<open>y_pred_adasyn = rf_model_adasyn.predict(X_test)\<close>
  \<^verbatim>\<open>accuracy_smote = accuracy_score(y_test, y_pred_smote)\<close>
  \<^verbatim>\<open>print("Accuracy after SMOTE over-sampling:", accuracy_smote)\<close>
  \<^verbatim>\<open>accuracy_adasyn = accuracy_score(y_test, y_pred_adasyn)\<close>
  \<^verbatim>\<open>print("Accuracy after ADASYN over-sampling:", accuracy_adasyn)\<close>
\<close>

definition smote_adasyn_cell :: "'o library \<Rightarrow> ('o, unit) code" where
  "smote_adasyn_cell lib =
   (let sm = Spec ''SMOTE'' [] [(''random_state'', PInt 42)] in
   bnd (store (\<lambda>s. s\<lparr>smote := Some sm\<rparr>)) (\<lambda>_.
   (let ad = Spec ''ADASYN'' [] [(''random_state'', PInt 42)] in
   bnd (store (\<lambda>s. s\<lparr>adasyn := Some ad\<rparr>)) (\<lambda>_.
   bnd (rd X_train ''X_train'') (\<lambda>Xtr.
   bnd (rd y_train ''y_train'') (\<lambda>ytr.
   bnd (call_fit_resample lib sm Xtr ytr) (\<lambda>(Xs, ys).
   bnd (store (\<lambda>s. s\<lparr>X_train_resampled_smote := Some Xs, y_train_resampled_smote := Some ys\<rparr>)) (\<lambda>_.
   bnd (rd X_train ''X_train'') (\<lambda>Xtr'.
   bnd (rd y_train ''y_train'') (\<lambda>ytr'.
   bnd (call_fit_resample lib ad Xtr' ytr') (\<lambda>(Xa, ya).
   bnd (store (\<lambda>s. s\<lparr>X_train_resampled_adasyn := Some Xa, y_train_resampled_adasyn := Some ya\<rparr>)) (\<lambda>_.
   (let rfs = Spec ''RandomForestClassifier'' [] [(''random_state'', PInt 42)] in
   bnd (store (\<lambda>s. s\<lparr>rf_model_smote := Some (rfs, None)\<rparr>)) (\<lambda>_.
   bnd (call_fit lib rfs Xs ys) (\<lambda>ms.
   bnd (store (\<lambda>s. s\<lparr>rf_model_smote := Some (rfs, Some ms)\<rparr>)) (\<lambda>_.
   (let rfa = Spec ''RandomForestClassifier'' [] [(''random_state'', PInt 42)] in
   bnd (store (\<lambda>s. s\<lparr>rf_model_adasyn := Some (rfa, None)\<rparr>)) (\<lambda>_.
   bnd (call_fit lib rfa Xa ya) (\<lambda>ma.
   bnd (store (\<lambda>s. s\<lparr>rf_model_adasyn := Some (rfa, Some ma)\<rparr>)) (\<lambda>_.
   bnd (rd X_test ''X_test'') (\<lambda>Xte.
   bnd (call_predict lib rfs ms Xte) (\<lambda>yps.
   bnd (store (\<lambda>s. s\<lparr>y_pred_smote := Some yps\<rparr>)) (\<lambda>_.
   bnd (rd X_test ''X_test'') (\<lambda>Xte'.
   bnd (call_predict lib rfa ma Xte') (\<lambda>ypa.
   bnd (store (\<lambda>s. s\<lparr>y_pred_adasyn := Some ypa\<rparr>)) (\<lambda>_.
   bnd (rd y_test ''y_test'') (\<lambda>yte.
   bnd (call_accuracy_score yte yps) (\<lambda>accs.
   bnd (store (\<lambda>s. s\<lparr>accuracy_smote := Some accs\<rparr>)) (\<lambda>_.
   bnd (print_line ''Accuracy after SMOTE over-sampling:'' accs) (\<lambda>_.
   bnd (rd y_test ''y_test'') (\<lambda>yte'.
   bnd (call_accuracy_score yte' ypa) (\<lambda>acca.
   bnd (store (\<lambda>s. s\<lparr>accuracy_adasyn := Some acca\<rparr>)) (\<lambda>_.
   print_line ''Accuracy after ADASYN over-sampling:'' acca)))))))))))))))))))))))))))))))))"

text \<open>
  \<^verbatim>\<open>class_weight = dict(zip(np.unique(y_train), np.bincount(y_train)))\<close>
  \<^verbatim>\<open>dt_model = DecisionTreeClassifier(class_weight=class_weight, random_state=42)\<close>
  \<^verbatim>\<open>dt_model.fit(X_train, y_train)\<close>
  \<^verbatim>\<open>y_pred = dt_model.predict(X_test)\<close>
  \<^verbatim>\<open>accuracy = accuracy_score(y_test, y_pred)\<close>
  \<^verbatim>\<open>print("Accuracy with class weighting:", accuracy)\<close>
\<close>

definition class_weighting_cell :: "'o library \<Rightarrow> ('o, unit) code" where
  "class_weighting_cell lib =
   bnd (rd y_train ''y_train'') (\<lambda>ytr.
   (let u = np_unique ytr in
   bnd (call_np_bincount ytr) (\<lambda>counts.
   (let cw = dict_of (zip u counts) in
   bnd (store (\<lambda>s. s\<lparr>class_weight := Some cw\<rparr>)) (\<lambda>_.
   (let dt = Spec ''DecisionTreeClassifier'' []
               [(''class_weight'', PCounts cw), (''random_state'', PInt 42)] in
   bnd (store (\<lambda>s. s\<lparr>dt_model := Some (dt, None)\<rparr>)) (\<lambda>_.
   bnd (rd X_train ''X_train'') (\<lambda>Xtr.
   bnd (rd y_train ''y_train'') (\<lambda>ytr'.
   bnd (call_fit lib dt Xtr ytr') (\<lambda>m.
   bnd (store (\<lambda>s. s\<lparr>dt_model := Some (dt, Some m)\<rparr>)) (\<lambda>_.
   bnd (rd X_test ''X_test'') (\<lambda>Xte.
   bnd (call_predict lib dt m Xte) (\<lambda>yp.
   bnd (store (\<lambda>s. s\<lparr>y_pred := Some yp\<rparr>)) (\<lambda>_.
   bnd (rd y_test ''y_test'') (\<lambda>yte.
   bnd (call_accuracy_score yte yp) (\<lambda>acc.
   bnd (store (\<lambda>s. s\<lparr>accuracy := Some acc\<rparr>)) (\<lambda>_.
   print_line ''Accuracy with class weighting:'' acc)))))))))))))))))"

text \<open>
  \<^verbatim>\<open>class_costs = {0: 1.0, 1: 10.0}\<close>
  \<^verbatim>\<open>dt_model = DecisionTreeClassifier(class_weight=class_costs, random_state=42)\<close>
  \<^verbatim>\<open>dt_model.fit(X_train, y_train)\<close>
  \<^verbatim>\<open>y_pred = dt_model.predict(X_test)\<close>
  \<^verbatim>\<open>accuracy = accuracy_score(y_test, y_pred)\<close>
  \<^verbatim>\<open>print("Accuracy with cost-sensitive learning:", accuracy)\<close>
\<close>

definition cost_sensitive_cell :: "'o library \<Rightarrow> ('o, unit) code" where
  "cost_sensitive_cell lib =
   (let costs = [(0, Finite 1), (1, Finite 10)] in
   bnd (store (\<lambda>s. s\<lparr>class_costs := Some costs\<rparr>)) (\<lambda>_.
   (let dt = Spec ''DecisionTreeClassifier'' []
               [(''class_weight'', PCosts costs), (''random_state'', PInt 42)] in
   bnd (store (\<lambda>s. s\<lparr>dt_model := Some (dt, None)\<rparr>)) (\<lambda>_.
   bnd (rd X_train ''X_train'') (\<lambda>Xtr.
   bnd (rd y_train ''y_train'') (\<lambda>ytr.
   bnd (call_fit lib dt Xtr ytr) (\<lambda>m.
   bnd (store (\<lambda>s. s\<lparr>dt_model := Some (dt, Some m)\<rparr>)) (\<lambda>_.
   bnd (rd X_test ''X_test'') (\<lambda>Xte.
   bnd (call_predict lib dt m Xte) (\<lambda>yp.
   bnd (store (\<lambda>s. s\<lparr>y_pred := Some yp\<rparr>)) (\<lambda>_.
   bnd (rd y_test ''y_test'') (\<lambda>yte.
   bnd (call_accuracy_score yte yp) (\<lambda>acc.
   bnd (store (\<lambda>s. s\<lparr>accuracy := Some acc\<rparr>)) (\<lambda>_.
   print_line ''Accuracy with cost-sensitive learning:'' acc))))))))))))))"

text \<open>
  \<^verbatim>\<open>anomaly_mask = y_train == 1\<close>
  \<^verbatim>\<open>svm_model = OneClassSVM()\<close>
  \<^verbatim>\<open>svm_model.fit(X_train[~anomaly_mask])\<close>
  \<^verbatim>\<open>y_pred = svm_model.predict(X_test)\<close>
  \<^verbatim>\<open>y_pred[y_pred == 1] = 0\<close>
  \<^verbatim>\<open>y_pred[y_pred == -1] = 1\<close>
  \<^verbatim>\<open>accuracy = accuracy_score(y_test, y_pred)\<close>
  \<^verbatim>\<open>print("Accuracy with anomaly detection:", accuracy)\<close>
\<close>

definition one_class_svm_cell :: "'o library \<Rightarrow> ('o, unit) code" where
  "one_class_svm_cell lib =
   bnd (rd y_train ''y_train'') (\<lambda>ytr.
   (let am = eq_scalar ytr 1 in
   bnd (store (\<lambda>s. s\<lparr>anomaly_mask := Some am\<rparr>)) (\<lambda>_.
   (let est = Spec ''OneClassSVM'' [] [] in
   bnd (store (\<lambda>s. s\<lparr>svm_model := Some (est, None)\<rparr>)) (\<lambda>_.
   bnd (rd X_train ''X_train'') (\<lambda>Xtr.
   bnd (call_getitem_mask Xtr (invert am)) (\<lambda>Xn.
   bnd (call_fit_unsupervised lib est Xn) (\<lambda>m.
   bnd (store (\<lambda>s. s\<lparr>svm_model := Some (est, Some m)\<rparr>)) (\<lambda>_.
   bnd (rd X_test ''X_test'') (\<lambda>Xte.
   bnd (call_predict lib est m Xte) (\<lambda>yp.
   bnd (store (\<lambda>s. s\<lparr>y_pred := Some yp\<rparr>)) (\<lambda>_.
   bnd (call_setitem_mask yp (eq_scalar yp 1) 0) (\<lambda>yp1.
   bnd (store (\<lambda>s. s\<lparr>y_pred := Some yp1\<rparr>)) (\<lambda>_.
   bnd (call_setitem_mask yp1 (eq_scalar yp1 (- 1)) 1) (\<lambda>yp2.
   bnd (store (\<lambda>s. s\<lparr>y_pred := Some yp2\<rparr>)) (\<lambda>_.
   bnd (rd y_test ''y_test'') (\<lambda>yte.
   bnd (call_accuracy_score yte yp2) (\<lambda>acc.
   bnd (store (\<lambda>s. s\<lparr>accuracy := Some acc\<rparr>)) (\<lambda>_.
   print_line ''Accuracy with anomaly detection:'' acc)))))))))))))))))))"

text \<open>
  \<^verbatim>\<open>anomaly_mask = y_train == 1\<close>
  \<^verbatim>\<open>if_model = IsolationForest()\<close>
  \<^verbatim>\<open>if_model.fit(X_train[~anomaly_mask])\<close>
  \<^verbatim>\<open>y_pred = if_model.predict(X_test)\<close>
  \<^verbatim>\<open>y_pred[y_pred == 1] = 0\<close>
  \<^verbatim>\<open>y_pred[y_pred == -1] = 1\<close>
  \<^verbatim>\<open>accuracy = accuracy_score(y_test, y_pred)\<close>
  \<^verbatim>\<open>print("Accuracy with Isolation Forest:", accuracy)\<close>
\<close>

definition isolation_forest_cell :: "'o library \<Rightarrow> ('o, unit) code" where
  "isolation_forest_cell lib =
   bnd (rd y_train ''y_train'') (\<lambda>ytr.
   (let am = eq_scalar ytr 1 in
   bnd (store (\<lambda>s. s\<lparr>anomaly_mask := Some am\<rparr>)) (\<lambda>_.
   (let est = Spec ''IsolationForest'' [] [] in
   bnd (store (\<lambda>s. s\<lparr>if_model := Some (est, None)\<rparr>)) (\<lambda>_.
   bnd (rd X_train ''X_train'') (\<lambda>Xtr.
   bnd (call_getitem_mask Xtr (invert am)) (\<lambda>Xn.
   bnd (call_fit_unsupervised lib est Xn) (\<lambda>m.
   bnd (store (\<lambda>s. s\<lparr>if_model := Some (est, Some m)\<rparr>)) (\<lambda>_.
   bnd (rd X_test ''X_test'') (\<lambda>Xte.
   bnd (call_predict lib est m Xte) (\<lambda>yp.
   bnd (store (\<lambda>s. s\<lparr>y_pred := Some yp\<rparr>)) (\<lambda>_.
   bnd (call_setitem_mask yp (eq_scalar yp 1) 0) (\<lambda>yp1.
   bnd (store (\<lambda>s. s\<lparr>y_pred := Some yp1\<rparr>)) (\<lambda>_.
   bnd (call_setitem_mask yp1 (eq_scalar yp1 (- 1)) 1) (\<lambda>yp2.
   bnd (store (\<lambda>s. s\<lparr>y_pred := Some yp2\<rparr>)) (\<lambda>_.
   bnd (rd y_test ''y_test'') (\<lambda>yte.
   bnd (call_accuracy_score yte yp2) (\<lambda>acc.
   bnd (store (\<lambda>s. s\<lparr>accuracy := Some acc\<rparr>)) (\<lambda>_.
   print_line ''Accuracy with Isolation Forest:'' acc)))))))))))))))))))"

section \<open>The cells of ensemble_learning.ipynb\<close>

definition ensemble_imports :: "'o library \<Rightarrow> ('o, unit) code" where
  "ensemble_imports lib =
     seq (map (call_import lib)
       [(''pandas'', []),
        (''sklearn.datasets'', [''load_digits'']),
        (''sklearn.datasets'', [''load_wine'']),
        (''sklearn.datasets'', [''load_diabetes'']),
        (''sklearn.datasets'', [''make_classification'']),
        (''sklearn.model_selection'', [''train_test_split'']),
        (''sklearn.metrics'', [''accuracy_score'']),
        (''sklearn.tree'', [''DecisionTreeClassifier'']),
        (''sklearn.ensemble'', [''BaggingClassifier'']),
        (''sklearn.ensemble'', [''AdaBoostClassifier'']),
        (''sklearn.ensemble'', [''RandomForestClassifier'', ''GradientBoostingClassifier'']),
        (''sklearn.linear_model'', [''LogisticRegression'']),
        (''sklearn.ensemble'', [''StackingClassifier''])])"

text \<open>
  \<^verbatim>\<open>digits = load_digits()\<close>
  \<^verbatim>\<open>X, y = digits.data, digits.target\<close>
  \<^verbatim>\<open>X_train, X_test, y_train, y_test = train_test_split(X, y, test_size=0.2, random_state=42)\<close>
  \<^verbatim>\<open>base_model = DecisionTreeClassifier(random_state=42)\<close>
  \<^verbatim>\<open>bagging_model = BaggingClassifier(base_model, n_estimators=20, random_state=42)\<close>
  \<^verbatim>\<open>bagging_model.fit(X_train, y_train)\<close>
  \<^verbatim>\<open>y_pred = bagging_model.predict(X_test)\<close>
  \<^verbatim>\<open>accuracy = accuracy_score(y_test, y_pred)\<close>
  \<^verbatim>\<open>print("Bagging Accuracy:", accuracy)\<close>
\<close>

definition bagging_cell :: "'o library \<Rightarrow> ('o, unit) code" where
  "bagging_cell lib =
   bnd (call_load_digits lib) (\<lambda>d.
   bnd (store (\<lambda>s. s\<lparr>digits := Some d\<rparr>)) (\<lambda>_.
   (let Xv = data d; yv = target d in
   bnd (store (\<lambda>s. s\<lparr>X := Some Xv, y := Some (Labels yv)\<rparr>)) (\<lambda>_.
   bnd (call_train_test_split lib Xv yv [(''test_size'', PFloat (Finite (1 / 5))), (''random_state'', PInt 42)]) (\<lambda>(Xtr, Xte, ytr, yte).
   bnd (store (\<lambda>s. s\<lparr>X_train := Some Xtr, X_test := Some Xte, y_train := Some ytr, y_test := Some yte\<rparr>)) (\<lambda>_.
   (let base = Spec ''DecisionTreeClassifier'' [] [(''random_state'', PInt 42)] in
   bnd (store (\<lambda>s. s\<lparr>base_model := Some base\<rparr>)) (\<lambda>_.
   (let est = Spec ''BaggingClassifier'' [PEstimator base]
                [(''n_estimators'', PInt 20), (''random_state'', PInt 42)] in
   bnd (store (\<lambda>s. s\<lparr>bagging_model := Some (est, None)\<rparr>)) (\<lambda>_.
   bnd (call_fit lib est Xtr ytr) (\<lambda>m.
   bnd (store (\<lambda>s. s\<lparr>bagging_model := Some (est, Some m)\<rparr>)) (\<lambda>_.
   bnd (call_predict lib est m Xte) (\<lambda>yp.
   bnd (store (\<lambda>s. s\<lparr>y_pred := Some yp\<rparr>)) (\<lambda>_.
   bnd (call_accuracy_score yte yp) (\<lambda>acc.
   bnd (store (\<lambda>s. s\<lparr>accuracy := Some acc\<rparr>)) (\<lambda>_.
   print_line ''Bagging Accuracy:'' acc))))))))))))))))"

text \<open>
  \<^verbatim>\<open>wine = load_wine()\<close>
  \<^verbatim>\<open>X, y = wine.data, wine.target\<close>
  \<^verbatim>\<open>X_train, X_test, y_train, y_test = train_test_split(X, y, test_size=0.2, random_state=42)\<close>
  \<^verbatim>\<open>base_model = DecisionTreeClassifier(max_depth=1, random_state=42)\<close>
  \<^verbatim>\<open>adaboost_model = AdaBoostClassifier(base_model, n_estimators=100, random_state=42)\<close>
  \<^verbatim>\<open>adaboost_model.fit(X_train, y_train)\<close>
  \<^verbatim>\<open>y_pred = adaboost_model.predict(X_test)\<close>
  \<^verbatim>\<open>accuracy = accuracy_score(y_test, y_pred)\<close>
  \<^verbatim>\<open>print("AdaBoost Accuracy:", accuracy)\<close>
\<close>

definition adaboost_cell :: "'o library \<Rightarrow> ('o, unit) code" where
  "adaboost_cell lib =
   bnd (call_load_wine lib) (\<lambda>d.
   bnd (store (\<lambda>s. s\<lparr>wine := Some d\<rparr>)) (\<lambda>_.
   (let Xv = data d; yv = target d in
   bnd (store (\<lambda>s. s\<lparr>X := Some Xv, y := Some (Labels yv)\<rparr>)) (\<lambda>_.
   bnd (call_train_test_split lib Xv yv [(''test_size'', PFloat (Finite (1 / 5))), (''random_state'', PInt 42)]) (\<lambda>(Xtr, Xte, ytr, yte).
   bnd (store (\<lambda>s. s\<lparr>X_train := Some Xtr, X_test := Some Xte, y_train := Some ytr, y_test := Some yte\<rparr>)) (\<lambda>_.
   (let base = Spec ''DecisionTreeClassifier'' [] [(''max_depth'', PInt 1), (''random_state'', PInt 42)] in
   bnd (store (\<lambda>s. s\<lparr>base_model := Some base\<rparr>)) (\<lambda>_.
   (let est = Spec ''AdaBoostClassifier'' [PEstimator base]
                [(''n_estimators'', PInt 100), (''random_state'', PInt 42)] in
   bnd (store (\<lambda>s. s\<lparr>adaboost_model := Some (est, None)\<rparr>)) (\<lambda>_.
   bnd (call_fit lib est Xtr ytr) (\<lambda>m.
   bnd (store (\<lambda>s. s\<lparr>adaboost_model := Some (est, Some m)\<rparr>)) (\<lambda>_.
   bnd (call_predict lib est m Xte) (\<lambda>yp.
   bnd (store (\<lambda>s. s\<lparr>y_pred := Some yp\<rparr>)) (\<lambda>_.
   bnd (call_accuracy_score yte yp) (\<lambda>acc.
   bnd (store (\<lambda>s. s\<lparr>accuracy := Some acc\<rparr>)) (\<lambda>_.
   print_line ''AdaBoost Accuracy:'' acc))))))))))))))))"

text \<open>
  \<^verbatim>\<open>diabetes = load_diabetes()\<close>
  \<^verbatim>\<open>X, y = diabetes.data, diabetes.target\<close>
  \<^verbatim>\<open>y_binary = (y > 150).astype(int)\<close>
  \<^verbatim>\<open>X_train, X_test, y_train, y_test = train_test_split(X, y_binary, test_size=0.2, random_state=42)\<close>
  \<^verbatim>\<open>base_models = [('rf', RandomForestClassifier(n_estimators=100, random_state=42)),\<close>
  \<^verbatim>\<open>               ('gb', GradientBoostingClassifier(n_estimators=100, random_state=42))]\<close>
  \<^verbatim>\<open>meta_model = LogisticRegression()\<close>
  \<^verbatim>\<open>stacking_model = StackingClassifier(estimators=base_models, final_estimator=meta_model)\<close>
  \<^verbatim>\<open>stacking_model.fit(X_train, y_train)\<close>
  \<^verbatim>\<open>y_pred = stacking_model.predict(X_test)\<close>
  \<^verbatim>\<open>accuracy = accuracy_score(y_test, y_pred)\<close>
  \<^verbatim>\<open>print("Stacking Accuracy:", accuracy)\<close>
\<close>

definition stacking_cell :: "'o library \<Rightarrow> ('o, unit) code" where
  "stacking_cell lib =
   bnd (call_load_diabetes lib) (\<lambda>d.
   bnd (store (\<lambda>s. s\<lparr>diabetes := Some d\<rparr>)) (\<lambda>_.
   (let Xv = data d; yv = target d in
   bnd (store (\<lambda>s. s\<lparr>X := Some Xv, y := Some (Values yv)\<rparr>)) (\<lambda>_.
   (let yb = y_binary_of yv in
   bnd (store (\<lambda>s. s\<lparr>y_binary := Some yb\<rparr>)) (\<lambda>_.
   bnd (call_train_test_split lib Xv yb [(''test_size'', PFloat (Finite (1 / 5))), (''random_state'', PInt 42)]) (\<lambda>(Xtr, Xte, ytr, yte).
   bnd (store (\<lambda>s. s\<lparr>X_train := Some Xtr, X_test := Some Xte, y_train := Some ytr, y_test := Some yte\<rparr>)) (\<lambda>_.
   (let bases = [(''rf'', Spec ''RandomForestClassifier'' []
                         [(''n_estimators'', PInt 100), (''random_state'', PInt 42)]),
                (''gb'', Spec ''GradientBoostingClassifier'' []
                         [(''n_estimators'', PInt 100), (''random_state'', PInt 42)])] in
   bnd (store (\<lambda>s. s\<lparr>base_models := Some bases\<rparr>)) (\<lambda>_.
   (let meta = Spec ''LogisticRegression'' [] [] in
   bnd (store (\<lambda>s. s\<lparr>meta_model := Some meta\<rparr>)) (\<lambda>_.
   (let est = Spec ''StackingClassifier'' []
                [(''estimators'', PEstimators bases), (''final_estimator'', PEstimator meta)] in
   bnd (store (\<lambda>s. s\<lparr>stacking_model := Some (est, None)\<rparr>)) (\<lambda>_.
   bnd (call_fit lib est Xtr ytr) (\<lambda>m.
   bnd (store (\<lambda>s. s\<lparr>stacking_model := Some (est, Some m)\<rparr>)) (\<lambda>_.
   bnd (call_predict lib est m Xte) (\<lambda>yp.
   bnd (store (\<lambda>s. s\<lparr>y_pred := Some yp\<rparr>)) (\<lambda>_.
   bnd (call_accuracy_score yte yp) (\<lambda>acc.
   bnd (store (\<lambda>s. s\<lparr>accuracy := Some acc\<rparr>)) (\<lambda>_.
   print_line ''Stacking Accuracy:'' acc))))))))))))))))))))"

section \<open>The notebooks as lists of cells\<close>

definition imbalanced_notebook :: "'o library \<Rightarrow> ('o, unit) code list" where
  "imbalanced_notebook lib =
     [imbalanced_imports lib, generate_cell lib, cluster_centroids_cell lib,
      tomek_links_cell lib, smote_cell lib, smote_enn_cell lib, smote_adasyn_cell lib,
      class_weighting_cell lib, cost_sensitive_cell lib, one_class_svm_cell lib,
      isolation_forest_cell lib]"

definition ensemble_notebook :: "'o library \<Rightarrow> ('o, unit) code list" where
  "ensemble_notebook lib =
     [ensemble_imports lib, bagging_cell lib, adaboost_cell lib, stacking_cell lib]"

text \<open>The cells that resample the training set.\<close>

definition resampling_cells :: "'o library \<Rightarrow> ('o, unit) code list" where
  "resampling_cells lib =
     [cluster_centroids_cell lib, tomek_links_cell lib, smote_cell lib, smote_enn_cell lib,
      smote_adasyn_cell lib]"

text \<open>
  The cells that report an accuracy, each with its \<^verbatim>\<open>print\<close> statements in the order
  written: the label, the variable that holds the predictions that are scored, and
  whether the cell has remapped them from -1 and 1 to 1 and 0 (the two anomaly cells
  have). One cell holds two scenarios and prints twice.
\<close>

type_synonym 'o report = "string \<times> ('o kernel \<Rightarrow> labels option) \<times> bool"

definition scenario_cells :: "'o library \<Rightarrow> (('o, unit) code \<times> 'o report list) list" where
  "scenario_cells lib =
     [(cluster_centroids_cell lib, [(''Accuracy after under-sampling:'', y_pred, False)]),
      (tomek_links_cell lib, [(''Accuracy after Tomek Links under-sampling:'', y_pred, False)]),
      (smote_cell lib, [(''Accuracy after over-sampling:'', y_pred, False)]),
      (smote_enn_cell lib, [(''Accuracy after combined resampling:'', y_pred, False)]),
      (smote_adasyn_cell lib,
         [(''Accuracy after SMOTE over-sampling:'', y_pred_smote, False),
          (''Accuracy after ADASYN over-sampling:'', y_pred_adasyn, False)]),
      (class_weighting_cell lib, [(''Accuracy with class weighting:'', y_pred, False)]),
      (cost_sensitive_cell lib, [(''Accuracy with cost-sensitive learning:'', y_pred, False)]),
      (one_class_svm_cell lib, [(''Accuracy with anomaly detection:'', y_pred, True)]),
      (isolation_forest_cell lib, [(''Accuracy with Isolation Forest:'', y_pred, True)]),
      (bagging_cell lib, [(''Bagging Accuracy:'', y_pred, False)]),
      (adaboost_cell lib, [(''AdaBoost Accuracy:'', y_pred, False)]),
      (stacking_cell lib, [(''Stacking Accuracy:'', y_pred, False)])]"

section \<open>Reading the trace\<close>

text \<open>The events a run has added to the trace.\<close>

definition new_events :: "'o kernel \<Rightarrow> 'o kernel \<Rightarrow> 'o event list" where
  "new_events s s' = drop (length (trace s)) (trace s')"

text \<open>The library calls of a trace, in order.\<close>

fun calls_of :: "'o event list \<Rightarrow> 'o call list" where
  "calls_of [] = []"
| "calls_of (Called k # es) = k # calls_of es"
| "calls_of (Warned w # es) = calls_of es"
| "calls_of (Printed l v # es) = calls_of es"

text \<open>The printed lines of a trace, in order: the standard output.\<close>

fun printed_of :: "'o event list \<Rightarrow> (string \<times> pyfloat) list" where
  "printed_of [] = []"
| "printed_of (Printed l v # es) = (l, v) # printed_of es"
| "printed_of (Called k # es) = printed_of es"
| "printed_of (Warned w # es) = printed_of es"

text \<open>Everything a trace shows on the output streams: warnings and printed lines.\<close>

fun output_of :: "'o event list \<Rightarrow> 'o event list" where
  "output_of [] = []"
| "output_of (Called k # es) = output_of es"
| "output_of (e # es) = e # output_of es"

fun is_warned :: "'o event \<Rightarrow> bool" where
  "is_warned (Warned w) = True"
| "is_warned _ = False"

text \<open>
  A trace is halted by the first call that raises: the run's result is that exception,
  and the trace holds nothing after the call but the warnings the call wrote.
\<close>

fun halted :: "'o library \<Rightarrow> py_exception + unit \<Rightarrow> 'o event list \<Rightarrow> bool" where
  "halted lib r [] = True"
| "halted lib r (Called k # es) =
     (case raised lib k of
        None \<Rightarrow> halted lib r es
      | Some e \<Rightarrow> r = Inl e \<and> list_all is_warned es)"
| "halted lib r (Warned w # es) = halted lib r es"
| "halted lib r (Printed l v # es) = halted lib r es"

text \<open>
  A call works on the partitions of the state \<open>s\<close> when a resampler is handed the
  training partition, a prediction is asked for the test features, and an accuracy is
  taken against the test labels.
\<close>

fun on_partitions :: "'o kernel \<Rightarrow> 'o call \<Rightarrow> bool" where
  "on_partitions s (FitResample sp Xa ya) = (X_train s = Some Xa \<and> y_train s = Some ya)"
| "on_partitions s (Predict sp m Xa) = (X_test s = Some Xa)"
| "on_partitions s (AccuracyScore yt yp) = (y_test s = Some yt)"
| "on_partitions s _ = True"

text \<open>The label vectors the \<^verbatim>\<open>predict\<close> calls of a trace have returned.\<close>

fun predictions :: "'o library \<Rightarrow> 'o call list \<Rightarrow> labels list" where
  "predictions lib [] = []"
| "predictions lib (Predict sp m Xa # ks) =
     (case snd (predict lib sp m Xa) of
        Inl e \<Rightarrow> predictions lib ks
      | Inr yp \<Rightarrow> yp # predictions lib ks)"
| "predictions lib (k # ks) = predictions lib ks"

text \<open>The arguments of the \<^verbatim>\<open>accuracy_score\<close> calls and of the \<^verbatim>\<open>fit_resample\<close> calls.\<close>

fun scored :: "'o call list \<Rightarrow> (labels \<times> labels) list" where
  "scored [] = []"
| "scored (AccuracyScore yt yp # ks) = (yt, yp) # scored ks"
| "scored (k # ks) = scored ks"

fun resampled :: "'o call list \<Rightarrow> (spec \<times> matrix \<times> labels) list" where
  "resampled [] = []"
| "resampled (FitResample sp Xa ya # ks) = (sp, Xa, ya) # resampled ks"
| "resampled (k # ks) = resampled ks"

text \<open>An accuracy in the closed unit interval.\<close>

fun in_unit_interval :: "pyfloat \<Rightarrow> bool" where
  "in_unit_interval (Finite q) = (0 \<le> q \<and> q \<le> 1)"
| "in_unit_interval _ = False"

section \<open>What a cell guarantees\<close>

text \<open>
  A cell halts at a raising call when, from every state, it keeps the trace it started
  with and the events it adds are halted by the first call that raises.
\<close>

definition halts :: "'o library \<Rightarrow> ('o, unit) code \<Rightarrow> bool" where
  "halts lib c =
     (\<forall>s. case c s of (r, s') \<Rightarrow>
        trace s' = trace s @ new_events s s' \<and> halted lib r (new_events s s'))"

text \<open>
  The line that a \<^verbatim>\<open>print\<close> statement owes in the state \<open>s'\<close>: its label with the
  accuracy of the test labels against the predictions in its variable, if both are set
  and \<^verbatim>\<open>accuracy_score\<close> returns.
\<close>

definition line_of :: "'o kernel \<Rightarrow> 'o report \<Rightarrow> (string \<times> pyfloat) option" where
  "line_of s' = (\<lambda>(label, var, remapped).
     case y_test s' of
       None \<Rightarrow> None
     | Some yt \<Rightarrow>
         (case var s' of
            None \<Rightarrow> None
          | Some yp \<Rightarrow>
              (case snd (accuracy_score yt yp) of
                 Inl e \<Rightarrow> None
               | Inr a \<Rightarrow> Some (label, a))))"

text \<open>What has become of a predicted vector when it is scored.\<close>

definition post_of :: "bool \<Rightarrow> labels \<Rightarrow> py_exception + labels" where
  "post_of remapped p = (if remapped then remap_predictions p else Inr p)"

text \<open>
  The predictions in the variable of a \<^verbatim>\<open>print\<close> statement come from \<^verbatim>\<open>predict\<close>:
  they are what one of the \<^verbatim>\<open>predict\<close> calls among \<open>ks\<close> returned, remapped where the
  cell remaps.
\<close>

definition from_predict :: "'o library \<Rightarrow> 'o call list \<Rightarrow> 'o kernel \<Rightarrow> 'o report \<Rightarrow> bool" where
  "from_predict lib ks s' = (\<lambda>(label, var, remapped).
     \<exists>p \<in> set (predictions lib ks). map_option Inr (var s') = Some (post_of remapped p))"

text \<open>
  A call works on the test partition of the state \<open>s'\<close> when a prediction is asked for
  its test features and an accuracy is taken against its test labels.
\<close>

fun on_test :: "'o kernel \<Rightarrow> 'o call \<Rightarrow> bool" where
  "on_test s' (Predict sp m Xa) = (X_test s' = Some Xa)"
| "on_test s' (AccuracyScore yt yp) = (y_test s' = Some yt)"
| "on_test s' _ = True"

text \<open>
  A run that ends with result \<open>r\<close> in state \<open>s'\<close>, having added the events \<open>new\<close>,
  reports by a list of \<^verbatim>\<open>print\<close> statements when its standard output is the lines
  that the first of these statements owe in \<open>s'\<close>, in order and nothing else; the
  predictions behind each line printed come from \<^verbatim>\<open>predict\<close>; every \<^verbatim>\<open>predict\<close> and
  \<^verbatim>\<open>accuracy_score\<close> call works on the test partition of \<open>s'\<close>; and it has printed
  for all of the statements exactly when it has not raised. A cell reports by the list
  when every run of it does.
\<close>

definition report_ok ::
  "'o library \<Rightarrow> 'o report list \<Rightarrow> py_exception + unit \<Rightarrow> 'o kernel \<Rightarrow> 'o event list \<Rightarrow> bool" where
  "report_ok lib rs r s' new =
     (map Some (printed_of new) = take (length (printed_of new)) (map (line_of s') rs) \<and>
      list_all (from_predict lib (calls_of new) s') (take (length (printed_of new)) rs) \<and>
      list_all (on_test s') (calls_of new) \<and>
      length (printed_of new) \<le> length rs \<and>
      ((r = Inr ()) = (length (printed_of new) = length rs)))"

definition reports :: "'o library \<Rightarrow> ('o, unit) code \<Rightarrow> 'o report list \<Rightarrow> bool" where
  "reports lib c rs = (\<forall>s. case c s of (r, s') \<Rightarrow> report_ok lib rs r s' (new_events s s'))"

text \<open>A cell is quiet when it raises: a run that raises has printed nothing.\<close>

definition quiet_on_raise :: "('o, unit) code \<Rightarrow> bool" where
  "quiet_on_raise c =
     (\<forall>s. case c s of (r, s') \<Rightarrow>
        (case r of Inl e \<Rightarrow> printed_of (new_events s s') = [] | Inr u \<Rightarrow> True))"

text \<open>
  A cell keeps to the partitions when, from every state, it leaves the test partition
  as it was, each of its calls works on the partitions of the state it started in,
  each accuracy is taken of a vector that one of its \<^verbatim>\<open>predict\<close> calls returned, and
  a run that finishes has resampled and has scored once for each resampling.
\<close>

definition keeps_test :: "'o library \<Rightarrow> ('o, unit) code \<Rightarrow> bool" where
  "keeps_test lib c =
     (\<forall>s. case c s of (r, s') \<Rightarrow>
        X_test s' = X_test s \<and> y_test s' = y_test s \<and>
        list_all (on_partitions s) (calls_of (new_events s s')) \<and>
        list_all (\<lambda>(yt, yp). yp \<in> set (predictions lib (calls_of (new_events s s'))))
          (scored (calls_of (new_events s s'))) \<and>
        (r = Inr () \<longrightarrow>
           resampled (calls_of (new_events s s')) \<noteq> [] \<and>
           length (scored (calls_of (new_events s s'))) =
             length (resampled (calls_of (new_events s s')))))"

section \<open>A small library and kernel states to run the cells on\<close>

definition empty_kernel :: "nat kernel" where
  "empty_kernel =
     \<lparr>trace = [],
      X = None, y = None, X_train = None, X_test = None, y_train = None, y_test = None,
      cluster_centroids = None, tomek_links = None, smote = None, smote_enn = None,
      adasyn = None, X_train_resampled = None, y_train_resampled = None,
      X_train_resampled_smote = None, y_train_resampled_smote = None,
      X_train_resampled_adasyn = None, y_train_resampled_adasyn = None, rf_model = None,
      rf_model_smote = None, rf_model_adasyn = None, dt_model = None, svm_model = None,
      if_model = None, y_pred = None, y_pred_smote = None, y_pred_adasyn = None,
      accuracy = None, accuracy_smote = None, accuracy_adasyn = None, class_weight =
      None, class_costs = None, anomaly_mask = None, digits = None, wine = None,
      diabetes = None, y_binary = None, base_model = None, bagging_model = None,
      adaboost_model = None, base_models = None, meta_model = None, stacking_model =
      None\<rparr>"

definition demo_X :: matrix where
  "demo_X =
     [[Finite 0], [Finite 1], [Finite 2], [Finite 3], [Finite 4],
      [Finite 5], [Finite 6], [Finite 7], [Finite 8], [Finite 9]]"

definition demo_y :: labels where
  "demo_y = [0, 0, 0, 0, 1, 0, 0, 0, 0, 1]"

text \<open>
  A stand-in library: the split keeps the last fifth of the rows for the test
  partition, resampling returns its input, a fitted model is the number of rows it was
  fitted on, and every prediction is the majority label (the inlier mark 1 for the two
  anomaly detectors); a matrix with no rows is refused.
\<close>

definition demo_predict :: "spec \<Rightarrow> nat \<Rightarrow> matrix \<Rightarrow> labels outcome" where
  "demo_predict sp m Xv =
     (case sp of Spec name args kw \<Rightarrow>
        if Xv = [] then ([], Inl ValueError)
        else if name = ''OneClassSVM'' \<or> name = ''IsolationForest''
        then ([], Inr (map (\<lambda>_. 1) Xv))
        else ([], Inr (map (\<lambda>_. 0) Xv)))"

definition demo_lib :: "nat library" where
  "demo_lib =
     \<lparr>import_module = (\<lambda>m names. ([], Inr ())),
      make_classification = (\<lambda>kw. ([], Inr (demo_X, demo_y))),
      load_digits = ([], Inr \<lparr>data = demo_X, target = demo_y\<rparr>),
      load_wine = ([], Inr \<lparr>data = demo_X, target = demo_y\<rparr>),
      load_diabetes = ([], Inr \<lparr>data = demo_X, target = map (\<lambda>v. Finite (of_int (200 * v))) demo_y\<rparr>),
      train_test_split = (\<lambda>Xv yv kw.
         ([], Inr (take (length Xv - length Xv div 5) Xv, drop (length Xv - length Xv div 5) Xv,
                   take (length yv - length yv div 5) yv, drop (length yv - length yv div 5) yv))),
      fit_resample = (\<lambda>sp Xv yv. ([], Inr (Xv, yv))),
      fit = (\<lambda>sp Xv yv. ([], Inr (length Xv))),
      fit_unsupervised = (\<lambda>sp Xv. ([], Inr (length Xv))),
      predict = demo_predict\<rparr>"

text \<open>The partitions that the split of the stand-in library makes of its data.\<close>

definition demo_X_train :: matrix where
  "demo_X_train =
     [[Finite 0], [Finite 1], [Finite 2], [Finite 3], [Finite 4],
      [Finite 5], [Finite 6], [Finite 7]]"

definition demo_X_test :: matrix where
  "demo_X_test = [[Finite 8], [Finite 9]]"

definition demo_y_train :: labels where
  "demo_y_train = [0, 0, 0, 0, 1, 0, 0, 0]"

definition demo_y_test :: labels where
  "demo_y_test = [0, 1]"

text \<open>The kernel after the data cell has run on the stand-in library.\<close>

definition split_kernel :: "nat kernel" where
  "split_kernel =
     empty_kernel\<lparr>X := Some demo_X, y := Some (Labels demo_y),
       X_train := Some demo_X_train, X_test := Some demo_X_test,
       y_train := Some demo_y_train, y_test := Some demo_y_test\<rparr>"

text \<open>
  The same library, except that resampling writes the two lines that the notebook
  records on the error stream of its ClusterCentroids cell (the first one shortened).
\<close>

definition warning_lib :: "nat library" where
  "warning_lib =
     demo_lib\<lparr>fit_resample := (\<lambda>sp Xv yv.
       ([''sklearn/cluster/_kmeans.py:870: FutureWarning: The default value of n_init will change from 10 to auto in 1.4.'',
         ''  warnings.warn(''],
        Inr (Xv, yv)))\<rparr>"

text \<open>A library whose resampling raises.\<close>

definition raising_lib :: "nat library" where
  "raising_lib = demo_lib\<lparr>fit_resample := (\<lambda>sp Xv yv. ([], Inl (LibraryError ''MemoryError'')))\<rparr>"

section \<open>Properties of the array expressions\<close>

lemma setitem_mask_eq_scalar:
  "setitem_mask a (eq_scalar a c) v = Inr (map (\<lambda>x. if x = c then v else x) a)"
  by (cases a) (simp_all add: setitem_mask_def eq_scalar_def zip_map2 zip_same_conv_map)

lemma remap_first_eq: "remap_first a = Inr (map (\<lambda>x. if x = 1 then 0 else x) a)"
  by (simp add: remap_first_def setitem_mask_eq_scalar)

lemma remap_second_eq: "remap_second a = Inr (map (\<lambda>x. if x = - 1 then 1 else x) a)"
  by (simp add: remap_second_def setitem_mask_eq_scalar)

lemma remap_predictions_eq:
  "remap_predictions a =
     Inr (map (\<lambda>x. if x = 1 then 0 else if x = - 1 then 1 else x) a)"
  by (simp add: remap_predictions_def remap_first_eq remap_second_eq)

subsection \<open>The prediction remapping\<close>

text \<open>
  Claim C9. In the anomaly-detection cells, for every prediction vector whose entries
  are -1 or 1, the two masked assignments, in the order written, both succeed and leave
  a vector of the same length with entries 0 or 1: every 1 has become 0 and every -1
  has become 1. No position that the first assignment rewrites is selected by the mask
  of the second.
\<close>

theorem remap_predictions_binary:
  assumes "set preds \<subseteq> {- 1, 1}"
  shows "\<exists>y1 y2. remap_first preds = Inr y1 \<and> remap_second y1 = Inr y2 \<and>
           remap_predictions preds = Inr y2 \<and>
           length y2 = length preds \<and> set y2 \<subseteq> {0, 1} \<and>
           (\<forall>i < length preds.
              (preds ! i = 1 \<longrightarrow> y2 ! i = 0) \<and>
              (preds ! i = - 1 \<longrightarrow> y2 ! i = 1) \<and>
              (eq_scalar preds 1 ! i \<longrightarrow> \<not> eq_scalar y1 (- 1) ! i))"
  using assms
  by (auto simp: remap_first_eq remap_second_eq remap_predictions_eq eq_scalar_def)

theorem remap_predictions_binary_witness:
  "set [1, - 1, - 1, 1 :: int] \<subseteq> {- 1, 1} \<and>
   remap_first [1, - 1, - 1, 1] = Inr [0, - 1, - 1, 0] \<and>
   remap_second [0, - 1, - 1, 0] = Inr [0, 1, 1, 0] \<and>
   remap_predictions [1, - 1, - 1, 1] = Inr [0, 1, 1, 0]"
proof -
  have h: "set [1, - 1, - 1, 1 :: int] \<subseteq> {- 1, 1}" by simp
  show ?thesis
    using h remap_predictions_binary[OF h]
    by (simp add: remap_first_eq remap_second_eq remap_predictions_eq)
qed

subsection \<open>The binarised target\<close>

text \<open>
  Claim C10. In the stacking cell, \<^verbatim>\<open>(y > 150).astype(int)\<close> turns every target vector
  into a vector of the same length whose entries are 0 or 1, and entry \<open>i\<close> is 1 exactly
  when \<open>y[i]\<close> is strictly greater than 150.
\<close>

theorem y_binary_threshold:
  "length (y_binary_of ys) = length ys \<and> set (y_binary_of ys) \<subseteq> {0, 1} \<and>
   (\<forall>i < length ys. (y_binary_of ys ! i = 1) = float_gt (ys ! i) 150)"
  by (auto simp: y_binary_of_def astype_int_def gt_scalar_def)

theorem y_binary_threshold_witness:
  "y_binary_of [Finite 151, Finite 150, Finite (301 / 2), NaN, PosInf, NegInf, Finite 75] =
     [1, 0, 1, 0, 1, 0, 0] \<and>
   float_gt (Finite 151) 150 \<and> \<not> float_gt (Finite 150) 150 \<and> \<not> float_gt NaN 150"
  using y_binary_threshold[of "[Finite 151, Finite 150, Finite (301 / 2), NaN, PosInf, NegInf, Finite 75]"]
  by (simp add: y_binary_of_def astype_int_def gt_scalar_def)

subsection \<open>The class weights\<close>

lemma update_fresh: "k \<notin> fst ` set d \<Longrightarrow> AList.update k v d = d @ [(k, v)]"
  by (induction d) auto

lemma fold_update_distinct:
  "distinct (map fst (d @ ps)) \<Longrightarrow> fold (\<lambda>(k, v) d. AList.update k v d) ps d = d @ ps"
proof (induction ps arbitrary: d)
  case Nil
  then show ?case by simp
next
  case (Cons p ps)
  obtain k v where p: "p = (k, v)" by (cases p)
  from Cons.prems have fresh: "k \<notin> fst ` set d" by (auto simp: p)
  from Cons.prems have "distinct (map fst ((d @ [(k, v)]) @ ps))" by (simp add: p)
  from Cons.IH[OF this] show ?case by (simp add: p update_fresh[OF fresh])
qed

lemma dict_of_distinct: "distinct (map fst ps) \<Longrightarrow> dict_of ps = ps"
  using fold_update_distinct[of "[]" ps] by (simp add: dict_of_def)

lemma int_interval: "{0 .. k - 1} = {0 ..< (k::int)}"
  by (simp add: set_eq_iff)

lemma np_unique_range:
  assumes "set a = {0 ..< k}"
  shows "np_unique a = [0 .. k - 1]"
proof (rule sorted_distinct_set_unique)
  show "sorted (np_unique a)" by (simp add: np_unique_def)
  show "distinct (np_unique a)" by (simp add: np_unique_def)
  show "sorted [0 .. k - 1]" by simp
  show "distinct [0 .. k - 1]" by simp
  show "set (np_unique a) = set [0 .. k - 1]"
    by (simp add: np_unique_def assms int_interval)
qed

lemma np_bincount_range:
  assumes "set a = {0 ..< k}"
  shows "np_bincount a = Inr (map (\<lambda>v. int (count_list a v)) [0 .. k - 1])"
proof (cases "a = []")
  case True
  with assms have "k \<le> 0" by auto
  with True show ?thesis by (simp add: np_bincount_def)
next
  case False
  then obtain x where "x \<in> set a" by (cases a) auto
  with assms have kpos: "0 < k" by auto
  have "Max (set a) = k - 1"
  proof (rule Max_eqI)
    show "finite (set a)" by simp
    show "\<And>v. v \<in> set a \<Longrightarrow> v \<le> k - 1" using assms by auto
    show "k - 1 \<in> set a" using assms kpos by auto
  qed
  moreover have "\<not> (\<exists>x \<in> set a. x < 0)" using assms by auto
  ultimately show ?thesis using False by (simp add: np_bincount_def)
qed

lemma class_weight_range:
  assumes "set a = {0 ..< k}"
  shows "class_weight_of a = Inr (map (\<lambda>v. (v, int (count_list a v))) [0 .. k - 1])"
proof -
  let ?f = "\<lambda>v. int (count_list a v)"
  have z: "zip [0 .. k - 1] (map ?f [0 .. k - 1]) = map (\<lambda>v. (v, ?f v)) [0 .. k - 1]"
    by (simp add: zip_map2 zip_same_conv_map)
  have "distinct (map fst (map (\<lambda>v. (v, ?f v)) [0 .. k - 1]))"
    by (simp add: comp_def)
  then show ?thesis
    by (simp add: class_weight_of_def np_unique_range[OF assms] np_bincount_range[OF assms]
        z dict_of_distinct)
qed

text \<open>
  Claim C5. For every integer label vector whose distinct labels are exactly
  \<open>0, \<dots>, k - 1\<close>, \<^verbatim>\<open>dict(zip(np.unique(y_train), np.bincount(y_train)))\<close> is a dictionary
  whose keys are the labels present, each once, and which maps every such label to the
  number of samples of that label in the vector: the raw count, not an inverse
  frequency.
\<close>

theorem class_weight_maps_labels_to_counts:
  assumes "set labs = {0 ..< k}"
  shows "\<exists>d. class_weight_of labs = Inr d \<and>
           fst ` set d = set labs \<and> distinct (map fst d) \<and>
           (\<forall>l \<in> set labs. map_of d l = Some (int (count_list labs l)))"
proof -
  let ?d = "map (\<lambda>v. (v, int (count_list labs v))) [0 .. k - 1]"
  have run: "class_weight_of labs = Inr ?d" by (rule class_weight_range[OF assms])
  have keys: "fst ` set ?d = set labs"
    by (simp add: image_image assms int_interval)
  have once: "distinct (map fst ?d)" by (simp add: comp_def)
  have counts: "\<forall>l \<in> set labs. map_of ?d l = Some (int (count_list labs l))"
  proof
    fix l
    assume "l \<in> set labs"
    then have "l \<in> set [0 .. k - 1]" by (simp add: assms int_interval)
    then show "map_of ?d l = Some (int (count_list labs l))"
      by (simp add: map_of_map_restrict)
  qed
  from run keys once counts show ?thesis by blast
qed

theorem class_weight_maps_labels_to_counts_witness:
  "set [0, 1, 0, 0, 2 :: int] = {0 ..< 3} \<and>
   class_weight_of [0, 1, 0, 0, 2] = Inr [(0, 3), (1, 1), (2, 1)]"
proof -
  have h: "set [0, 1, 0, 0, 2 :: int] = {0 ..< 3}" by auto
  have ev: "class_weight_of [0, 1, 0, 0, 2] = Inr [(0, 3), (1, 1), (2, 1)]"
    by code_simp
  show ?thesis
    using h ev class_weight_maps_labels_to_counts[OF h] by simp
qed

section \<open>Running cell code\<close>

text \<open>
  The equations by which a cell is run step by step: what a read, an assignment, a
  library call and a print do to the state, and how the rest of the cell goes on.
\<close>

lemma run_bnd_rd:
  "bnd (rd var name) f s = (case var s of None \<Rightarrow> (Inl (NameError name), s) | Some v \<Rightarrow> f v s)"
  by (simp add: bnd_def rd_def split: option.splits)

lemma run_bnd_store: "bnd (store upd) f s = f () (upd s)"
  by (simp add: bnd_def store_def)

lemma run_store: "store upd s = (Inr (), upd s)"
  by (simp add: store_def)

lemma run_bnd_ext:
  "bnd (ext k out) f s =
     (case snd out of
        Inl e \<Rightarrow> (Inl e, s\<lparr>trace := trace s @ Called k # map Warned (fst out)\<rparr>)
      | Inr a \<Rightarrow> f a (s\<lparr>trace := trace s @ Called k # map Warned (fst out)\<rparr>))"
  by (simp add: bnd_def ext_def split: sum.splits)

lemma run_bnd_print:
  "bnd (print_line l v) f s = f () (s\<lparr>trace := trace s @ [Printed l v]\<rparr>)"
  by (simp add: bnd_def print_line_def)

lemma run_print:
  "print_line l v s = (Inr (), s\<lparr>trace := trace s @ [Printed l v]\<rparr>)"
  by (simp add: print_line_def)

lemma run_ret: "ret a s = (Inr a, s)"
  by (simp add: ret_def)

lemmas run_simps = run_bnd_rd run_bnd_store run_store run_bnd_ext run_bnd_print run_print run_ret

lemmas call_defs = call_import_def call_make_classification_def call_load_digits_def
  call_load_wine_def call_load_diabetes_def call_train_test_split_def call_fit_resample_def
  call_fit_def call_fit_unsupervised_def call_predict_def call_accuracy_score_def
  call_np_bincount_def call_getitem_mask_def call_setitem_mask_def

lemma calls_of_append [simp]: "calls_of (a @ b) = calls_of a @ calls_of b"
  by (induction a rule: calls_of.induct) auto

lemma calls_of_warned [simp]: "calls_of (map Warned ws) = []"
  by (induction ws) auto

lemma printed_of_append [simp]: "printed_of (a @ b) = printed_of a @ printed_of b"
  by (induction a rule: printed_of.induct) auto

lemma printed_of_warned [simp]: "printed_of (map Warned ws) = []"
  by (induction ws) auto

lemma all_warned [simp]: "list_all is_warned (map Warned ws)"
  by (induction ws) auto

lemma halted_warned [simp]: "halted lib r (map Warned ws @ es) = halted lib r es"
  by (induction ws) auto

lemma halted_warned' [simp]: "halted lib r (map Warned ws)"
  by (induction ws) auto

lemma exn_of_simps [simp]:
  "snd out = Inr a \<Longrightarrow> exn_of out = None"
  "snd out = Inl e \<Longrightarrow> exn_of out = Some e"
  by (simp_all add: exn_of_def)

lemma exn_of_pure [simp]:
  "exn_of ([], Inr a) = None" "exn_of ([], Inl e) = Some e"
  by (simp_all add: exn_of_def)


lemma output_of_append [simp]: "output_of (a @ b) = output_of a @ output_of b"
  by (induction a rule: output_of.induct) auto

lemma output_of_warned [simp]: "output_of (map Warned ws) = map Warned ws"
  by (induction ws) auto

lemma scored_append [simp]: "scored (a @ b) = scored a @ scored b"
  by (induction a rule: scored.induct) auto

lemma resampled_append [simp]: "resampled (a @ b) = resampled a @ resampled b"
  by (induction a rule: resampled.induct) auto

lemma predictions_append [simp]: "predictions lib (a @ b) = predictions lib a @ predictions lib b"
  by (induction a rule: predictions.induct) (auto split: sum.splits)

section \<open>The accuracy metric and the contract of predict\<close>

lemma agreement_bounds:
  assumes "length yt = length yp" and "yt \<noteq> []"
  shows "0 \<le> agreement yt yp \<and> agreement yt yp \<le> 1"
proof -
  have "length (filter (\<lambda>(a, b). a = b) (zip yt yp)) \<le> length (zip yt yp)"
    by (rule length_filter_le)
  also have "\<dots> = length yt" using assms by simp
  finally have le: "length (filter (\<lambda>(a, b). a = b) (zip yt yp)) \<le> length yt" .
  have pos: "0 < int (length yt)" using assms(2) by simp
  have "0 \<le> Fract (int (length (filter (\<lambda>(a, b). a = b) (zip yt yp)))) (int (length yt))"
    using pos by (simp add: zero_le_Fract_iff)
  moreover have "Fract (int (length (filter (\<lambda>(a, b). a = b) (zip yt yp)))) (int (length yt)) \<le> 1"
    using pos le by (simp add: Fract_le_one_iff)
  ultimately show ?thesis by (simp only: agreement_def)
qed

lemma accuracy_in_unit:
  "snd (accuracy_score yt yp) = Inr a \<Longrightarrow> yt \<noteq> [] \<Longrightarrow> in_unit_interval a"
  by (auto simp: accuracy_score_def agreement_bounds split: if_splits)

lemma accuracy_returns: "snd (accuracy_score yt yp) = Inr a \<Longrightarrow> length yt = length yp"
  by (simp add: accuracy_score_def split: if_splits)

lemma accuracy_raises: "snd (accuracy_score yt yp) = Inl e \<Longrightarrow> length yt \<noteq> length yp"
  by (simp add: accuracy_score_def split: if_splits)

lemma predict_length:
  "predict_contract lib \<Longrightarrow> snd (predict lib sp m Xv) = Inr yp \<Longrightarrow> length yp = length Xv"
  unfolding predict_contract_def by blast

lemma predict_nonempty:
  "predict_contract lib \<Longrightarrow> snd (predict lib sp m Xv) = Inr yp \<Longrightarrow> yp \<noteq> []"
  unfolding predict_contract_def by fastforce

lemma predictions_nonempty:
  "predict_contract lib \<Longrightarrow> p \<in> set (predictions lib ks) \<Longrightarrow> p \<noteq> []"
  by (induction lib ks rule: predictions.induct)
     (auto split: sum.splits dest: predict_nonempty)

lemma post_of_length: "post_of remapped p = Inr yp \<Longrightarrow> length yp = length p"
  by (auto simp: post_of_def remap_predictions_eq split: if_splits)

text \<open>
  Every line of a run that reports holds an accuracy between 0 and 1: the vector scored
  has the length of a prediction, which is not empty, and the accuracy was returned, so
  the test labels have that length too.
\<close>

lemma reported_in_unit:
  assumes contract: "predict_contract lib"
    and ok: "report_ok lib rs r s' new"
    and line: "(l, a) \<in> set (printed_of new)"
  shows "in_unit_interval a"
proof -
  let ?n = "length (printed_of new)"
  from ok have lines: "map Some (printed_of new) = take ?n (map (line_of s') rs)"
    and preds: "list_all (from_predict lib (calls_of new) s') (take ?n rs)"
    and le: "?n \<le> length rs"
    by (simp_all add: report_ok_def)
  from line obtain i where i: "i < ?n" and at: "printed_of new ! i = (l, a)"
    by (auto simp: in_set_conv_nth)
  from i le have irs: "i < length rs" by simp
  have "map Some (printed_of new) ! i = Some (l, a)" using i at by simp
  with lines i irs have owed: "line_of s' (rs ! i) = Some (l, a)" by simp
  obtain label var remapped where ri: "rs ! i = (label, var, remapped)"
    by (cases "rs ! i") auto
  from owed ri obtain yt yp where yt: "y_test s' = Some yt" and yp: "var s' = Some yp"
    and acc: "snd (accuracy_score yt yp) = Inr a"
    by (auto simp: line_of_def split: option.splits sum.splits)
  from preds i irs have "from_predict lib (calls_of new) s' (rs ! i)"
    by (simp add: list_all_length)
  with ri yp obtain p where p: "p \<in> set (predictions lib (calls_of new))"
    and post: "post_of remapped p = Inr yp"
    by (auto simp: from_predict_def)
  from predictions_nonempty[OF contract p] post_of_length[OF post] have "yp \<noteq> []" by auto
  with accuracy_returns[OF acc] have "yt \<noteq> []" by auto
  from accuracy_in_unit[OF acc this] show ?thesis .
qed

section \<open>Every cell, statement by statement\<close>

text \<open>
  Each cell is run symbolically from an arbitrary state and an arbitrary library. The
  run branches where a variable may be unset and where a call may raise; the
  guarantees are read off at the end of every branch.
\<close>

lemmas report_defs = report_ok_def line_of_def from_predict_def post_of_def
  remap_predictions_def remap_first_def remap_second_def

lemma imbalanced_imports_halts: "halts lib (imbalanced_imports lib)"
  unfolding halts_def imbalanced_imports_def Let_def call_defs new_events_def
  by (simp add: run_simps split: option.splits sum.splits prod.splits)

lemma generate_halts: "halts lib (generate_cell lib)"
  unfolding halts_def generate_cell_def Let_def call_defs new_events_def
  by (simp add: run_simps split: option.splits sum.splits prod.splits)

lemma cluster_centroids_halts: "halts lib (cluster_centroids_cell lib)"
  unfolding halts_def cluster_centroids_cell_def Let_def call_defs new_events_def
  by (simp add: run_simps split: option.splits sum.splits prod.splits)

lemma tomek_links_halts: "halts lib (tomek_links_cell lib)"
  unfolding halts_def tomek_links_cell_def Let_def call_defs new_events_def
  by (simp add: run_simps split: option.splits sum.splits prod.splits)

lemma smote_halts: "halts lib (smote_cell lib)"
  unfolding halts_def smote_cell_def Let_def call_defs new_events_def
  by (simp add: run_simps split: option.splits sum.splits prod.splits)

lemma smote_enn_halts: "halts lib (smote_enn_cell lib)"
  unfolding halts_def smote_enn_cell_def Let_def call_defs new_events_def
  by (simp add: run_simps split: option.splits sum.splits prod.splits)

lemma smote_adasyn_halts: "halts lib (smote_adasyn_cell lib)"
  unfolding halts_def smote_adasyn_cell_def Let_def call_defs new_events_def
  by (simp add: run_simps split: option.splits sum.splits prod.splits)

lemma class_weighting_halts: "halts lib (class_weighting_cell lib)"
  unfolding halts_def class_weighting_cell_def Let_def call_defs new_events_def
  by (simp add: run_simps split: option.splits sum.splits prod.splits)

lemma cost_sensitive_halts: "halts lib (cost_sensitive_cell lib)"
  unfolding halts_def cost_sensitive_cell_def Let_def call_defs new_events_def
  by (simp add: run_simps split: option.splits sum.splits prod.splits)

lemma one_class_svm_halts: "halts lib (one_class_svm_cell lib)"
  unfolding halts_def one_class_svm_cell_def Let_def call_defs new_events_def
  by (simp add: run_simps split: option.splits sum.splits prod.splits)

lemma isolation_forest_halts: "halts lib (isolation_forest_cell lib)"
  unfolding halts_def isolation_forest_cell_def Let_def call_defs new_events_def
  by (simp add: run_simps split: option.splits sum.splits prod.splits)

lemma ensemble_imports_halts: "halts lib (ensemble_imports lib)"
  unfolding halts_def ensemble_imports_def Let_def call_defs new_events_def
  by (simp add: run_simps split: option.splits sum.splits prod.splits)

lemma bagging_halts: "halts lib (bagging_cell lib)"
  unfolding halts_def bagging_cell_def Let_def call_defs new_events_def
  by (simp add: run_simps split: option.splits sum.splits prod.splits)

lemma adaboost_halts: "halts lib (adaboost_cell lib)"
  unfolding halts_def adaboost_cell_def Let_def call_defs new_events_def
  by (simp add: run_simps split: option.splits sum.splits prod.splits)

lemma stacking_halts: "halts lib (stacking_cell lib)"
  unfolding halts_def stacking_cell_def Let_def call_defs new_events_def
  by (simp add: run_simps split: option.splits sum.splits prod.splits)

lemma cluster_centroids_reports:
  "reports lib (cluster_centroids_cell lib)
     [(''Accuracy after under-sampling:'', y_pred, False)]"
  unfolding reports_def cluster_centroids_cell_def Let_def call_defs new_events_def
  apply (simp add: run_simps split: option.splits sum.splits prod.splits)
  apply (simp add: report_defs)
  done

lemma tomek_links_reports:
  "reports lib (tomek_links_cell lib)
     [(''Accuracy after Tomek Links under-sampling:'', y_pred, False)]"
  unfolding reports_def tomek_links_cell_def Let_def call_defs new_events_def
  apply (simp add: run_simps split: option.splits sum.splits prod.splits)
  apply (simp add: report_defs)
  done

lemma smote_reports:
  "reports lib (smote_cell lib)
     [(''Accuracy after over-sampling:'', y_pred, False)]"
  unfolding reports_def smote_cell_def Let_def call_defs new_events_def
  apply (simp add: run_simps split: option.splits sum.splits prod.splits)
  apply (simp add: report_defs)
  done

lemma smote_enn_reports:
  "reports lib (smote_enn_cell lib)
     [(''Accuracy after combined resampling:'', y_pred, False)]"
  unfolding reports_def smote_enn_cell_def Let_def call_defs new_events_def
  apply (simp add: run_simps split: option.splits sum.splits prod.splits)
  apply (simp add: report_defs)
  done

lemma smote_adasyn_reports:
  "reports lib (smote_adasyn_cell lib)
     [(''Accuracy after SMOTE over-sampling:'', y_pred_smote, False),
      (''Accuracy after ADASYN over-sampling:'', y_pred_adasyn, False)]"
  unfolding reports_def smote_adasyn_cell_def Let_def call_defs new_events_def
  apply (simp add: run_simps split: option.splits sum.splits prod.splits)
  apply (simp add: report_defs)
  done

lemma class_weighting_reports:
  "reports lib (class_weighting_cell lib)
     [(''Accuracy with class weighting:'', y_pred, False)]"
  unfolding reports_def class_weighting_cell_def Let_def call_defs new_events_def
  apply (simp add: run_simps split: option.splits sum.splits prod.splits)
  apply (simp add: report_defs)
  done

lemma cost_sensitive_reports:
  "reports lib (cost_sensitive_cell lib)
     [(''Accuracy with cost-sensitive learning:'', y_pred, False)]"
  unfolding reports_def cost_sensitive_cell_def Let_def call_defs new_events_def
  apply (simp add: run_simps split: option.splits sum.splits prod.splits)
  apply (simp add: report_defs)
  done

lemma one_class_svm_reports:
  "reports lib (one_class_svm_cell lib)
     [(''Accuracy with anomaly detection:'', y_pred, True)]"
  unfolding reports_def one_class_svm_cell_def Let_def call_defs new_events_def
  apply (simp add: run_simps split: option.splits sum.splits prod.splits)
  apply (simp add: report_defs)
  done

lemma isolation_forest_reports:
  "reports lib (isolation_forest_cell lib)
     [(''Accuracy with Isolation Forest:'', y_pred, True)]"
  unfolding reports_def isolation_forest_cell_def Let_def call_defs new_events_def
  apply (simp add: run_simps split: option.splits sum.splits prod.splits)
  apply (simp add: report_defs)
  done

lemma bagging_reports:
  "reports lib (bagging_cell lib)
     [(''Bagging Accuracy:'', y_pred, False)]"
  unfolding reports_def bagging_cell_def Let_def call_defs new_events_def
  apply (simp add: run_simps split: option.splits sum.splits prod.splits)
  apply (simp add: report_defs)
  done

lemma adaboost_reports:
  "reports lib (adaboost_cell lib)
     [(''AdaBoost Accuracy:'', y_pred, False)]"
  unfolding reports_def adaboost_cell_def Let_def call_defs new_events_def
  apply (simp add: run_simps split: option.splits sum.splits prod.splits)
  apply (simp add: report_defs)
  done

lemma stacking_reports:
  "reports lib (stacking_cell lib)
     [(''Stacking Accuracy:'', y_pred, False)]"
  unfolding reports_def stacking_cell_def Let_def call_defs new_events_def
  apply (simp add: run_simps split: option.splits sum.splits prod.splits)
  apply (simp add: report_defs)
  done

lemma cluster_centroids_keeps_test: "keeps_test lib (cluster_centroids_cell lib)"
  unfolding keeps_test_def cluster_centroids_cell_def Let_def call_defs new_events_def
  by (simp add: run_simps split: option.splits sum.splits prod.splits)

lemma tomek_links_keeps_test: "keeps_test lib (tomek_links_cell lib)"
  unfolding keeps_test_def tomek_links_cell_def Let_def call_defs new_events_def
  by (simp add: run_simps split: option.splits sum.splits prod.splits)

lemma smote_keeps_test: "keeps_test lib (smote_cell lib)"
  unfolding keeps_test_def smote_cell_def Let_def call_defs new_events_def
  by (simp add: run_simps split: option.splits sum.splits prod.splits)

lemma smote_enn_keeps_test: "keeps_test lib (smote_enn_cell lib)"
  unfolding keeps_test_def smote_enn_cell_def Let_def call_defs new_events_def
  by (simp add: run_simps split: option.splits sum.splits prod.splits)

lemma smote_adasyn_keeps_test: "keeps_test lib (smote_adasyn_cell lib)"
  unfolding keeps_test_def smote_adasyn_cell_def Let_def call_defs new_events_def
  by (simp add: run_simps split: option.splits sum.splits prod.splits)

lemma imbalanced_imports_quiet: "quiet_on_raise (imbalanced_imports lib)"
  unfolding quiet_on_raise_def imbalanced_imports_def Let_def call_defs new_events_def
  by (simp add: run_simps split: option.splits sum.splits prod.splits)

lemma generate_quiet: "quiet_on_raise (generate_cell lib)"
  unfolding quiet_on_raise_def generate_cell_def Let_def call_defs new_events_def
  by (simp add: run_simps split: option.splits sum.splits prod.splits)

lemma cluster_centroids_quiet: "quiet_on_raise (cluster_centroids_cell lib)"
  unfolding quiet_on_raise_def cluster_centroids_cell_def Let_def call_defs new_events_def
  by (simp add: run_simps split: option.splits sum.splits prod.splits)

lemma tomek_links_quiet: "quiet_on_raise (tomek_links_cell lib)"
  unfolding quiet_on_raise_def tomek_links_cell_def Let_def call_defs new_events_def
  by (simp add: run_simps split: option.splits sum.splits prod.splits)

lemma smote_quiet: "quiet_on_raise (smote_cell lib)"
  unfolding quiet_on_raise_def smote_cell_def Let_def call_defs new_events_def
  by (simp add: run_simps split: option.splits sum.splits prod.splits)

lemma smote_enn_quiet: "quiet_on_raise (smote_enn_cell lib)"
  unfolding quiet_on_raise_def smote_enn_cell_def Let_def call_defs new_events_def
  by (simp add: run_simps split: option.splits sum.splits prod.splits)

lemma smote_adasyn_quiet:
  assumes "predict_contract lib"
  shows "quiet_on_raise (smote_adasyn_cell lib)"
  unfolding quiet_on_raise_def smote_adasyn_cell_def Let_def call_defs new_events_def
  apply (simp add: run_simps split: option.splits sum.splits prod.splits)
  apply (auto dest!: predict_length[OF assms] accuracy_returns accuracy_raises)
  done

lemma class_weighting_quiet: "quiet_on_raise (class_weighting_cell lib)"
  unfolding quiet_on_raise_def class_weighting_cell_def Let_def call_defs new_events_def
  by (simp add: run_simps split: option.splits sum.splits prod.splits)

lemma cost_sensitive_quiet: "quiet_on_raise (cost_sensitive_cell lib)"
  unfolding quiet_on_raise_def cost_sensitive_cell_def Let_def call_defs new_events_def
  by (simp add: run_simps split: option.splits sum.splits prod.splits)

lemma one_class_svm_quiet: "quiet_on_raise (one_class_svm_cell lib)"
  unfolding quiet_on_raise_def one_class_svm_cell_def Let_def call_defs new_events_def
  by (simp add: run_simps split: option.splits sum.splits prod.splits)

lemma isolation_forest_quiet: "quiet_on_raise (isolation_forest_cell lib)"
  unfolding quiet_on_raise_def isolation_forest_cell_def Let_def call_defs new_events_def
  by (simp add: run_simps split: option.splits sum.splits prod.splits)

lemma ensemble_imports_quiet: "quiet_on_raise (ensemble_imports lib)"
  unfolding quiet_on_raise_def ensemble_imports_def Let_def call_defs new_events_def
  by (simp add: run_simps split: option.splits sum.splits prod.splits)

lemma bagging_quiet: "quiet_on_raise (bagging_cell lib)"
  unfolding quiet_on_raise_def bagging_cell_def Let_def call_defs new_events_def
  by (simp add: run_simps split: option.splits sum.splits prod.splits)

lemma adaboost_quiet: "quiet_on_raise (adaboost_cell lib)"
  unfolding quiet_on_raise_def adaboost_cell_def Let_def call_defs new_events_def
  by (simp add: run_simps split: option.splits sum.splits prod.splits)

lemma stacking_quiet: "quiet_on_raise (stacking_cell lib)"
  unfolding quiet_on_raise_def stacking_cell_def Let_def call_defs new_events_def
  by (simp add: run_simps split: option.splits sum.splits prod.splits)

text \<open>
  The array expressions of the first sections are what the cells compute: the
  class-weighting cell stores \<open>class_weight_of\<close> of the training labels and hands it to
  the tree, both anomaly cells leave \<open>remap_predictions\<close> of the predicted vector in
  \<^verbatim>\<open>y_pred\<close>, and the stacking cell stores \<open>y_binary_of\<close> of the loaded target.
\<close>

lemma class_weighting_uses_counts:
  "case class_weighting_cell lib s of (r, s') \<Rightarrow>
     r = Inr () \<longrightarrow>
       (\<exists>ytr d m. y_train s = Some ytr \<and> class_weight_of ytr = Inr d \<and>
          class_weight s' = Some d \<and>
          dt_model s' =
            Some (Spec ''DecisionTreeClassifier'' []
                    [(''class_weight'', PCounts d), (''random_state'', PInt 42)], Some m))"
  unfolding class_weighting_cell_def Let_def call_defs new_events_def class_weight_of_def
  by (simp add: run_simps split: option.splits sum.splits prod.splits)

lemma one_class_svm_remaps:
  "case one_class_svm_cell lib s of (r, s') \<Rightarrow>
     r = Inr () \<longrightarrow>
       (\<exists>yp yp2. predictions lib (calls_of (new_events s s')) = [yp] \<and>
          remap_predictions yp = Inr yp2 \<and> y_pred s' = Some yp2)"
  unfolding one_class_svm_cell_def Let_def call_defs new_events_def
    remap_predictions_def remap_first_def remap_second_def
  by (simp add: run_simps split: option.splits sum.splits prod.splits)

lemma isolation_forest_remaps:
  "case isolation_forest_cell lib s of (r, s') \<Rightarrow>
     r = Inr () \<longrightarrow>
       (\<exists>yp yp2. predictions lib (calls_of (new_events s s')) = [yp] \<and>
          remap_predictions yp = Inr yp2 \<and> y_pred s' = Some yp2)"
  unfolding isolation_forest_cell_def Let_def call_defs new_events_def
    remap_predictions_def remap_first_def remap_second_def
  by (simp add: run_simps split: option.splits sum.splits prod.splits)

lemma stacking_binarises:
  "case stacking_cell lib s of (r, s') \<Rightarrow>
     r = Inr () \<longrightarrow>
       (\<exists>d. snd (load_diabetes lib) = Inr d \<and> y s' = Some (Values (target d)) \<and>
          y_binary s' = Some (y_binary_of (target d)))"
  unfolding stacking_cell_def Let_def call_defs new_events_def
  by (simp add: run_simps split: option.splits sum.splits prod.splits)


lemma all_halt: "list_all (halts lib) (imbalanced_notebook lib @ ensemble_notebook lib)"
  by (simp add: imbalanced_notebook_def ensemble_notebook_def
      imbalanced_imports_halts generate_halts cluster_centroids_halts tomek_links_halts
      smote_halts smote_enn_halts smote_adasyn_halts class_weighting_halts
      cost_sensitive_halts one_class_svm_halts isolation_forest_halts
      ensemble_imports_halts bagging_halts adaboost_halts stacking_halts)

lemma all_report: "list_all (\<lambda>(c, rs). reports lib c rs) (scenario_cells lib)"
  by (simp add: scenario_cells_def
      cluster_centroids_reports tomek_links_reports smote_reports smote_enn_reports
      smote_adasyn_reports class_weighting_reports cost_sensitive_reports
      one_class_svm_reports isolation_forest_reports bagging_reports adaboost_reports
      stacking_reports)

lemma all_keep_test: "list_all (keeps_test lib) (resampling_cells lib)"
  by (simp add: resampling_cells_def cluster_centroids_keeps_test tomek_links_keeps_test
      smote_keeps_test smote_enn_keeps_test smote_adasyn_keeps_test)

lemma all_quiet:
  "predict_contract lib \<Longrightarrow>
   list_all quiet_on_raise (imbalanced_notebook lib @ ensemble_notebook lib)"
  by (simp add: imbalanced_notebook_def ensemble_notebook_def
      imbalanced_imports_quiet generate_quiet cluster_centroids_quiet tomek_links_quiet
      smote_quiet smote_enn_quiet smote_adasyn_quiet class_weighting_quiet
      cost_sensitive_quiet one_class_svm_quiet isolation_forest_quiet
      ensemble_imports_quiet bagging_quiet adaboost_quiet stacking_quiet)

section \<open>Runs on the stand-in libraries\<close>

lemma split_kernel_simps:
  "trace split_kernel = []"
  "X_train split_kernel = Some demo_X_train"
  "y_train split_kernel = Some demo_y_train"
  "X_test split_kernel = Some demo_X_test"
  "y_test split_kernel = Some demo_y_test"
  by (simp_all add: split_kernel_def empty_kernel_def)

lemma demo_lib_simps:
  "fit_resample demo_lib = (\<lambda>sp Xv yv. ([], Inr (Xv, yv)))"
  "fit demo_lib = (\<lambda>sp Xv yv. ([], Inr (length Xv)))"
  "predict demo_lib = demo_predict"
  "fit_resample warning_lib =
     (\<lambda>sp Xv yv.
       ([''sklearn/cluster/_kmeans.py:870: FutureWarning: The default value of n_init will change from 10 to auto in 1.4.'',
         ''  warnings.warn(''],
        Inr (Xv, yv)))"
  "fit warning_lib = (\<lambda>sp Xv yv. ([], Inr (length Xv)))"
  "predict warning_lib = demo_predict"
  "fit_resample raising_lib = (\<lambda>sp Xv yv. ([], Inl (LibraryError ''MemoryError'')))"
  "predict raising_lib = demo_predict"
  by (simp_all add: warning_lib_def raising_lib_def demo_lib_def)

lemma demo_run_simps:
  "length demo_X_train = 8"
  "demo_predict (Spec ''RandomForestClassifier'' args kw) m demo_X_test = ([], Inr [0, 0])"
  "accuracy_score demo_y_test [0, 0] = ([], Inr (Finite (1 / 2)))"
  by (simp_all add: demo_X_train_def demo_X_test_def demo_predict_def accuracy_score_def
      agreement_def Fract_of_int_quotient demo_y_test_def)

lemmas demo_simps = split_kernel_simps demo_lib_simps demo_run_simps

lemma demo_contract:
  "predict_contract demo_lib" "predict_contract warning_lib" "predict_contract raising_lib"
  by (auto simp: predict_contract_def demo_lib_simps demo_predict_def
      split: spec.splits if_splits)

lemma tomek_demo_run:
  "fst (tomek_links_cell demo_lib split_kernel) = Inr () \<and>
   new_events split_kernel (snd (tomek_links_cell demo_lib split_kernel)) =
     [Called (FitResample (Spec ''TomekLinks'' [] []) demo_X_train demo_y_train),
      Called (Fit (Spec ''RandomForestClassifier'' [] [(''random_state'', PInt 42)])
                demo_X_train demo_y_train),
      Called (Predict (Spec ''RandomForestClassifier'' [] [(''random_state'', PInt 42)]) 8
                demo_X_test),
      Called (AccuracyScore demo_y_test [0, 0]),
      Printed ''Accuracy after Tomek Links under-sampling:'' (Finite (1 / 2))] \<and>
   X_test (snd (tomek_links_cell demo_lib split_kernel)) = Some demo_X_test \<and>
   y_test (snd (tomek_links_cell demo_lib split_kernel)) = Some demo_y_test \<and>
   y_pred (snd (tomek_links_cell demo_lib split_kernel)) = Some [0, 0]"
  unfolding tomek_links_cell_def Let_def call_defs new_events_def
  by (simp add: run_simps demo_simps)

lemma tomek_raising_run:
  "fst (tomek_links_cell raising_lib split_kernel) = Inl (LibraryError ''MemoryError'') \<and>
   new_events split_kernel (snd (tomek_links_cell raising_lib split_kernel)) =
     [Called (FitResample (Spec ''TomekLinks'' [] []) demo_X_train demo_y_train)]"
  unfolding tomek_links_cell_def Let_def call_defs new_events_def
  by (simp add: run_simps demo_simps)

section \<open>The claims about the cells\<close>

subsection \<open>What a scenario prints\<close>

text \<open>
  Claim C4, as the cells have it. Take any library whose \<^verbatim>\<open>predict\<close> keeps to its
  contract. For every scenario cell of the two notebooks and every run of it: every
  accuracy that is printed lies in the closed interval from 0 to 1; the standard output
  of the run consists of the lines of the cell's \<^verbatim>\<open>print\<close> statements, in order and
  nothing else, each the label paired with \<^verbatim>\<open>accuracy_score(y_test, y_pred)\<close> of the
  test labels and the predictions the run has left in its variables; these predictions
  are what \<^verbatim>\<open>predict\<close> returned for the test features (remapped in the anomaly cells);
  and there is one line for each scenario of the cell exactly when no exception has
  stopped the run. The statement is about standard output: a library call may write
  warnings to the error stream beside it.
\<close>

theorem scenario_prints_accuracy:
  assumes "predict_contract lib"
  shows "\<forall>(c, rs) \<in> set (scenario_cells lib). \<forall>s.
     (\<forall>(l, a) \<in> set (printed_of (new_events s (snd (c s)))). in_unit_interval a) \<and>
     map Some (printed_of (new_events s (snd (c s)))) =
       take (length (printed_of (new_events s (snd (c s))))) (map (line_of (snd (c s))) rs) \<and>
     list_all (from_predict lib (calls_of (new_events s (snd (c s)))) (snd (c s)))
       (take (length (printed_of (new_events s (snd (c s))))) rs) \<and>
     (\<forall>k \<in> set (calls_of (new_events s (snd (c s)))). on_test (snd (c s)) k) \<and>
     length (printed_of (new_events s (snd (c s)))) \<le> length rs \<and>
     ((fst (c s) = Inr ()) = (length (printed_of (new_events s (snd (c s)))) = length rs))"
proof (intro ballI, clarify)
  fix c rs s
  assume mem: "(c, rs) \<in> set (scenario_cells lib)"
  from all_report mem have "reports lib c rs" by (auto simp: list_all_iff)
  then have ok: "report_ok lib rs (fst (c s)) (snd (c s)) (new_events s (snd (c s)))"
    unfolding reports_def case_prod_beta by blast
  have unit: "\<forall>(l, a) \<in> set (printed_of (new_events s (snd (c s)))). in_unit_interval a"
    using reported_in_unit[OF assms ok] by blast
  from ok unit
  show "(\<forall>(l, a) \<in> set (printed_of (new_events s (snd (c s)))). in_unit_interval a) \<and>
     map Some (printed_of (new_events s (snd (c s)))) =
       take (length (printed_of (new_events s (snd (c s))))) (map (line_of (snd (c s))) rs) \<and>
     list_all (from_predict lib (calls_of (new_events s (snd (c s)))) (snd (c s)))
       (take (length (printed_of (new_events s (snd (c s))))) rs) \<and>
     (\<forall>k \<in> set (calls_of (new_events s (snd (c s)))). on_test (snd (c s)) k) \<and>
     length (printed_of (new_events s (snd (c s)))) \<le> length rs \<and>
     ((fst (c s) = Inr ()) = (length (printed_of (new_events s (snd (c s)))) = length rs))"
    unfolding report_ok_def list_all_iff by blast
qed

theorem scenario_prints_accuracy_witness:
  "predict_contract demo_lib \<and>
   snd (predict demo_lib (Spec ''RandomForestClassifier'' [] [(''random_state'', PInt 42)]) 8 demo_X_test) = Inr [0, 0] \<and>
   (tomek_links_cell demo_lib, [(''Accuracy after Tomek Links under-sampling:'', y_pred, False)])
     \<in> set (scenario_cells demo_lib) \<and>
   fst (tomek_links_cell demo_lib split_kernel) = Inr () \<and>
   printed_of (new_events split_kernel (snd (tomek_links_cell demo_lib split_kernel))) =
     [(''Accuracy after Tomek Links under-sampling:'', Finite (1 / 2))] \<and>
   in_unit_interval (Finite (1 / 2)) \<and>
   y_test (snd (tomek_links_cell demo_lib split_kernel)) = Some demo_y_test \<and>
   y_pred (snd (tomek_links_cell demo_lib split_kernel)) = Some [0, 0] \<and>
   accuracy_score demo_y_test [0, 0] = ([], Inr (Finite (1 / 2)))"
proof -
  have m: "(tomek_links_cell demo_lib, [(''Accuracy after Tomek Links under-sampling:'', y_pred, False)])
      \<in> set (scenario_cells demo_lib)"
    by (simp add: scenario_cells_def)
  note inst = spec[OF bspec[OF scenario_prints_accuracy[OF demo_contract(1)] m, simplified],
      of split_kernel]
  show ?thesis
    using m inst demo_contract(1) tomek_demo_run by (simp add: demo_simps)
qed

text \<open>
  The claim as the specification words it makes that line the only output of a
  scenario. The ClusterCentroids cell of the notebook has two warning lines on its
  error stream before its accuracy line, and so has its run on a library that warns as
  recorded there; and on a library whose resampling raises, the cell stops before its
  \<^verbatim>\<open>print\<close> statement and writes no line at all.
\<close>

theorem cluster_centroids_output_not_single_line:
  "fst (cluster_centroids_cell warning_lib split_kernel) = Inr () \<and>
   output_of (new_events split_kernel (snd (cluster_centroids_cell warning_lib split_kernel))) =
     [Warned ''sklearn/cluster/_kmeans.py:870: FutureWarning: The default value of n_init will change from 10 to auto in 1.4.'',
      Warned ''  warnings.warn('',
      Printed ''Accuracy after under-sampling:'' (Finite (1 / 2))] \<and>
   \<not> (\<exists>l a. output_of (new_events split_kernel
                 (snd (cluster_centroids_cell warning_lib split_kernel))) = [Printed l a]) \<and>
   fst (cluster_centroids_cell raising_lib split_kernel) = Inl (LibraryError ''MemoryError'') \<and>
   output_of (new_events split_kernel (snd (cluster_centroids_cell raising_lib split_kernel))) = []"
  unfolding cluster_centroids_cell_def Let_def call_defs new_events_def
  by (simp add: run_simps demo_simps)

subsection \<open>The test partition under resampling\<close>

text \<open>
  Claim C7. In every resampling cell, from every state and for every library: the
  variables \<^verbatim>\<open>X_test\<close> and \<^verbatim>\<open>y_test\<close> are the same after the cell as before; every
  \<^verbatim>\<open>fit_resample\<close> call of the cell is given the training partition and nothing else;
  every \<^verbatim>\<open>predict\<close> call is given the test features of the state the cell started in,
  and every accuracy is taken against its test labels, of a vector that one of those
  \<^verbatim>\<open>predict\<close> calls returned. A run that finishes has resampled, and has scored once
  for each resampling. (A library call returns values; it has no access to the
  variables of the kernel.)
\<close>

theorem resampling_keeps_test_partition:
  "\<forall>c \<in> set (resampling_cells lib). \<forall>s.
     X_test (snd (c s)) = X_test s \<and> y_test (snd (c s)) = y_test s \<and>
     (\<forall>k \<in> set (calls_of (new_events s (snd (c s)))). on_partitions s k) \<and>
     (\<forall>(yt, yp) \<in> set (scored (calls_of (new_events s (snd (c s))))).
        yp \<in> set (predictions lib (calls_of (new_events s (snd (c s)))))) \<and>
     (fst (c s) = Inr () \<longrightarrow>
        resampled (calls_of (new_events s (snd (c s)))) \<noteq> [] \<and>
        length (scored (calls_of (new_events s (snd (c s))))) =
          length (resampled (calls_of (new_events s (snd (c s))))))"
proof (intro ballI allI)
  fix c s
  assume "c \<in> set (resampling_cells lib)"
  with all_keep_test have "keeps_test lib c" by (auto simp: list_all_iff)
  then show "X_test (snd (c s)) = X_test s \<and> y_test (snd (c s)) = y_test s \<and>
     (\<forall>k \<in> set (calls_of (new_events s (snd (c s)))). on_partitions s k) \<and>
     (\<forall>(yt, yp) \<in> set (scored (calls_of (new_events s (snd (c s))))).
        yp \<in> set (predictions lib (calls_of (new_events s (snd (c s)))))) \<and>
     (fst (c s) = Inr () \<longrightarrow>
        resampled (calls_of (new_events s (snd (c s)))) \<noteq> [] \<and>
        length (scored (calls_of (new_events s (snd (c s))))) =
          length (resampled (calls_of (new_events s (snd (c s))))))"
    unfolding keeps_test_def list_all_iff case_prod_beta by blast
qed


theorem resampling_keeps_test_partition_witness:
  "tomek_links_cell demo_lib \<in> set (resampling_cells demo_lib) \<and>
   fst (tomek_links_cell demo_lib split_kernel) = Inr () \<and>
   X_test (snd (tomek_links_cell demo_lib split_kernel)) = Some demo_X_test \<and>
   y_test (snd (tomek_links_cell demo_lib split_kernel)) = Some demo_y_test \<and>
   calls_of (new_events split_kernel (snd (tomek_links_cell demo_lib split_kernel))) =
     [FitResample (Spec ''TomekLinks'' [] []) demo_X_train demo_y_train,
      Fit (Spec ''RandomForestClassifier'' [] [(''random_state'', PInt 42)]) demo_X_train demo_y_train,
      Predict (Spec ''RandomForestClassifier'' [] [(''random_state'', PInt 42)]) 8 demo_X_test,
      AccuracyScore demo_y_test [0, 0]]"
proof -
  have m: "tomek_links_cell demo_lib \<in> set (resampling_cells demo_lib)"
    by (simp add: resampling_cells_def)
  note inst = spec[OF bspec[OF resampling_keeps_test_partition m], of split_kernel]
  show ?thesis
    using m inst tomek_demo_run by (simp add: split_kernel_simps)
qed

subsection \<open>Exceptions\<close>

lemma halted_decomp:
  "halted lib r (pre @ Called k # post) \<Longrightarrow> raised lib k = Some e \<Longrightarrow>
     r = Inl e \<and> list_all is_warned post"
proof (induction pre)
  case Nil
  then show ?case by simp
next
  case (Cons ev pre)
  show ?case
  proof (cases ev)
    case (Called k')
    show ?thesis
    proof (cases "raised lib k'")
      case None
      with Cons Called show ?thesis by simp
    next
      case (Some e')
      with Cons.prems Called have "list_all is_warned (pre @ Called k # post)" by simp
      then show ?thesis by simp
    qed
  next
    case (Warned w)
    with Cons show ?thesis by simp
  next
    case (Printed l v)
    with Cons show ?thesis by simp
  qed
qed

text \<open>
  Claim C8. No cell handles an exception. Take any library whose \<^verbatim>\<open>predict\<close> keeps to
  its contract. In every cell of both notebooks, from every state, a library call that
  raises ends the cell there: the result of the cell is that same exception, after the
  call the trace holds only the warnings the call wrote, so no further call is made, and
  the cell has printed no accuracy line. A cell that raises for any reason has printed
  none.
\<close>

theorem raising_call_halts_cell:
  assumes "predict_contract lib"
  shows "\<forall>c \<in> set (imbalanced_notebook lib @ ensemble_notebook lib). \<forall>s.
      trace (snd (c s)) = trace s @ new_events s (snd (c s)) \<and>
      (\<forall>pre k post e.
         new_events s (snd (c s)) = pre @ Called k # post \<and> raised lib k = Some e \<longrightarrow>
         fst (c s) = Inl e \<and> list_all is_warned post \<and>
         printed_of (new_events s (snd (c s))) = []) \<and>
      (\<forall>e. fst (c s) = Inl e \<longrightarrow> printed_of (new_events s (snd (c s))) = [])"
proof (intro ballI allI)
  fix c s
  assume mem: "c \<in> set (imbalanced_notebook lib @ ensemble_notebook lib)"
  with all_halt have "halts lib c" by (auto simp: list_all_iff)
  then have h: "trace (snd (c s)) = trace s @ new_events s (snd (c s))"
    "halted lib (fst (c s)) (new_events s (snd (c s)))"
    unfolding halts_def case_prod_beta by blast+
  from all_quiet[OF assms] mem have "quiet_on_raise c" by (auto simp: list_all_iff)
  then have "case fst (c s) of
      Inl e \<Rightarrow> printed_of (new_events s (snd (c s))) = [] | Inr u \<Rightarrow> True"
    unfolding quiet_on_raise_def case_prod_beta by blast
  then have q: "\<forall>e. fst (c s) = Inl e \<longrightarrow> printed_of (new_events s (snd (c s))) = []"
    by (auto split: sum.splits)
  have d: "\<forall>pre k post e.
         new_events s (snd (c s)) = pre @ Called k # post \<and> raised lib k = Some e \<longrightarrow>
         fst (c s) = Inl e \<and> list_all is_warned post"
    using h(2) halted_decomp[of lib "fst (c s)"] by metis
  from h(1) q d
  show "trace (snd (c s)) = trace s @ new_events s (snd (c s)) \<and>
      (\<forall>pre k post e.
         new_events s (snd (c s)) = pre @ Called k # post \<and> raised lib k = Some e \<longrightarrow>
         fst (c s) = Inl e \<and> list_all is_warned post \<and>
         printed_of (new_events s (snd (c s))) = []) \<and>
      (\<forall>e. fst (c s) = Inl e \<longrightarrow> printed_of (new_events s (snd (c s))) = [])"
    by blast
qed

theorem raising_call_halts_cell_witness:
  "predict_contract raising_lib \<and>
   snd (predict raising_lib (Spec ''RandomForestClassifier'' [] [(''random_state'', PInt 42)]) 8 demo_X_test) = Inr [0, 0] \<and>
   tomek_links_cell raising_lib \<in> set (imbalanced_notebook raising_lib @ ensemble_notebook raising_lib) \<and>
   new_events split_kernel (snd (tomek_links_cell raising_lib split_kernel)) =
     [] @ Called (FitResample (Spec ''TomekLinks'' [] []) demo_X_train demo_y_train) # [] \<and>
   raised raising_lib (FitResample (Spec ''TomekLinks'' [] []) demo_X_train demo_y_train) =
     Some (LibraryError ''MemoryError'') \<and>
   fst (tomek_links_cell raising_lib split_kernel) = Inl (LibraryError ''MemoryError'') \<and>
   printed_of (new_events split_kernel (snd (tomek_links_cell raising_lib split_kernel))) = []"
proof -
  have m: "tomek_links_cell raising_lib
      \<in> set (imbalanced_notebook raising_lib @ ensemble_notebook raising_lib)"
    by (simp add: imbalanced_notebook_def)
  have r: "raised raising_lib (FitResample (Spec ''TomekLinks'' [] []) demo_X_train demo_y_train) =
      Some (LibraryError ''MemoryError'')"
    by (simp add: demo_lib_simps exn_of_def)
  note inst = spec[OF bspec[OF raising_call_halts_cell[OF demo_contract(3)] m], of split_kernel]
  show ?thesis
    using m r inst demo_contract(3) tomek_raising_run by (simp add: demo_simps)
qed

end
